theory Spec2Isabelle
  imports Complex_Main "HOL-Library.Product_Lexorder" "HOL-Library.Multiset"
begin

section \<open>Python values used by the collectors\<close>

text \<open>
  Strings are byte lists; a non-ASCII character of the source (the emoji of the section
  headings) is written as its UTF-8 bytes. An exception is a class together with the
  text that \<open>str(e)\<close> gives.
\<close>

datatype exc_class =
    CalledProcessError | TimeoutExpired | FileNotFoundError | PermissionError | OSError
  | ZeroDivisionError | TypeError | IndexError | ValueError
  | NoSuchProcess | AccessDenied | ZombieProcess
  | RequestsTimeout | RequestsConnectionError | RuntimeError
  | UnicodeDecodeError | AttributeError

type_synonym py_error = "exc_class \<times> string"

definition exc_str :: "py_error \<Rightarrow> string" where
  "exc_str e = snd e"

definition NL :: char where
  "NL = CHR 0x0A"

subsection \<open>The external-command helper\<close>

text \<open>
  What \<open>subprocess.check_output(cmd, text=True, timeout=timeout)\<close> meets on the machine:
  the command ran to the end with an exit status and an output that the encoding of the
  locale decodes (the decoded text is the second field), it ran to the end with an output
  that the encoding of the locale does not decode, it was still running when the timeout
  expired, its binary does not exist, or starting it failed otherwise.
\<close>

datatype proc_result =
    Exited int string
  | Undecodable int
  | TimedOut
  | MissingBinary
  | SpawnFailed py_error

type_synonym runner = "string list \<Rightarrow> nat \<Rightarrow> proc_result"

definition CR :: char where
  "CR = CHR 0x0D"

text \<open>
  The line ends of text mode: \<open>data.replace("\r\n", "\n").replace("\r", "\n")\<close> on the
  decoded output.
\<close>

fun translate_newlines :: "string \<Rightarrow> string" where
  "translate_newlines [] = []"
| "translate_newlines [c] = (if c = CR then [NL] else [c])"
| "translate_newlines (c # d # cs) =
     (if c = CR \<and> d = NL then NL # translate_newlines cs
      else if c = CR then NL # translate_newlines (d # cs)
      else c # translate_newlines (d # cs))"

text \<open>
  \<open>check_output\<close> reads and decodes the whole output before it looks at the exit status:
  an output that does not decode raises \<open>UnicodeDecodeError\<close> whatever the status is.
\<close>

definition check_output :: "runner \<Rightarrow> string list \<Rightarrow> nat \<Rightarrow> py_error + string" where
  "check_output run cmd timeout =
     (case run cmd timeout of
        Exited rc out \<Rightarrow>
          if rc = 0 then Inr (translate_newlines out)
          else Inl (CalledProcessError, ''non-zero exit status'')
      | Undecodable rc \<Rightarrow> Inl (UnicodeDecodeError, ''codec can't decode byte'')
      | TimedOut \<Rightarrow> Inl (TimeoutExpired, ''timed out'')
      | MissingBinary \<Rightarrow> Inl (FileNotFoundError, ''No such file or directory'')
      | SpawnFailed e \<Rightarrow> Inl e)"

text \<open>
  \<open>safe_subprocess\<close>: the three exception classes of its \<open>except\<close> clause give the empty
  string, every other exception leaves the helper.
\<close>

definition safe_subprocess :: "runner \<Rightarrow> string list \<Rightarrow> nat \<Rightarrow> py_error + string" where
  "safe_subprocess run cmd timeout =
     (case check_output run cmd timeout of
        Inr out \<Rightarrow> Inr out
      | Inl e \<Rightarrow> if fst e \<in> {CalledProcessError, TimeoutExpired, FileNotFoundError}
                 then Inr '''' else Inl e)"

subsection \<open>Strings\<close>

text \<open>
  \<open>str.split(sep)\<close> for a one-character separator: the result is never empty, and
  an empty field stands between two adjacent separators.
\<close>

fun split_on :: "char \<Rightarrow> string \<Rightarrow> string list" where
  "split_on c [] = [[]]"
| "split_on c (x # xs) =
     (if x = c then [] # split_on c xs
      else (case split_on c xs of w # ws \<Rightarrow> (x # w) # ws | [] \<Rightarrow> [[x]]))"

text \<open>The characters below 128 that \<open>str.isspace\<close> accepts.\<close>

definition is_space :: "char \<Rightarrow> bool" where
  "is_space c = (c \<in> {CHR '' '', CHR 0x09, CHR 0x0A, CHR 0x0B, CHR 0x0C, CHR 0x0D,
                       CHR 0x1C, CHR 0x1D, CHR 0x1E, CHR 0x1F})"

definition strip :: "string \<Rightarrow> string" where
  "strip s = rev (dropWhile is_space (rev (dropWhile is_space s)))"

definition startswith :: "string \<Rightarrow> string \<Rightarrow> bool" where
  "startswith s p = (take (length p) s = p)"

text \<open>\<open>sub in s\<close> on strings.\<close>

fun contains :: "string \<Rightarrow> string \<Rightarrow> bool" where
  "contains [] sub = (sub = [])"
| "contains (c # cs) sub = (startswith (c # cs) sub \<or> contains cs sub)"

text \<open>
  \<open>str.lower\<close> on text whose letters are ASCII: the letters A to Z change, every other
  byte stays.
\<close>

definition lower_char :: "char \<Rightarrow> char" where
  "lower_char c =
     (case map_of (zip ''ABCDEFGHIJKLMNOPQRSTUVWXYZ'' ''abcdefghijklmnopqrstuvwxyz'') c of
        None \<Rightarrow> c
      | Some l \<Rightarrow> l)"

definition lower :: "string \<Rightarrow> string" where
  "lower s = map lower_char s"

text \<open>
  Text is kept as its UTF-8 bytes, while Python counts and cuts characters. A character is
  a byte that is not a continuation byte (\<open>10xxxxxx\<close>) together with the continuation
  bytes that follow it; \<open>utf8_chars\<close> splits a text into its characters.
\<close>

definition is_continuation :: "char \<Rightarrow> bool" where
  "is_continuation c = (digit7 c \<and> \<not> digit6 c)"

fun utf8_chars :: "string \<Rightarrow> string list" where
  "utf8_chars [] = []"
| "utf8_chars (c # cs) =
     (if cs \<noteq> [] \<and> is_continuation (hd cs) then
        (case utf8_chars cs of w # ws \<Rightarrow> (c # w) # ws | [] \<Rightarrow> [[c]])
      else [c] # utf8_chars cs)"

text \<open>\<open>len(s)\<close>, \<open>s[:n]\<close> and \<open>s[-n:]\<close> (for \<open>n > 0\<close>) on characters.\<close>

definition len_chars :: "string \<Rightarrow> nat" where
  "len_chars s = length (utf8_chars s)"

definition take_chars :: "nat \<Rightarrow> string \<Rightarrow> string" where
  "take_chars n s = concat (take n (utf8_chars s))"

definition last_chars :: "nat \<Rightarrow> string \<Rightarrow> string" where
  "last_chars n s = concat (drop (len_chars s - n) (utf8_chars s))"

definition is_ascii :: "string \<Rightarrow> bool" where
  "is_ascii s = list_all (\<lambda>c. \<not> digit7 c) s"

text \<open>
  \<open>str.lower\<close> on any text. On ASCII text it changes the letters A to Z alone. On text
  with other characters the result comes from the Unicode tables of the interpreter
  (with the rule for a final sigma, which looks at the neighbours of a character): it
  is the parameter \<open>unicode_lower\<close>.
\<close>

definition str_lower :: "(string \<Rightarrow> string) \<Rightarrow> string \<Rightarrow> string" where
  "str_lower unicode_lower s = (if is_ascii s then lower s else unicode_lower s)"

fun join :: "string \<Rightarrow> string list \<Rightarrow> string" where
  "join sep [] = []"
| "join sep [x] = x"
| "join sep (x # y # ys) = x @ sep @ join sep (y # ys)"

definition digit_char :: "nat \<Rightarrow> char" where
  "digit_char d = ''0123456789'' ! (d mod 10)"

fun show_nat :: "nat \<Rightarrow> string" where
  "show_nat n = (if n < 10 then [digit_char n] else show_nat (n div 10) @ [digit_char (n mod 10)])"

declare show_nat.simps [simp del]

definition show_int :: "int \<Rightarrow> string" where
  "show_int i = (if i < 0 then CHR ''-'' # show_nat (nat (- i)) else show_nat (nat i))"

text \<open>The format \<open>:02d\<close> on a number that is not negative.\<close>

definition zero_pad2 :: "nat \<Rightarrow> string" where
  "zero_pad2 n = replicate (2 - length (show_nat n)) CHR ''0'' @ show_nat n"

text \<open>A string or \<open>None\<close> in a condition: true when it is a string that is not empty.\<close>

definition truthy_str :: "string option \<Rightarrow> bool" where
  "truthy_str v = (case v of None \<Rightarrow> False | Some x \<Rightarrow> x \<noteq> [])"

text \<open>
  \<open>str.split()\<close> without a separator: the fields between runs of whitespace, none of
  them empty.
\<close>

fun split_where :: "(char \<Rightarrow> bool) \<Rightarrow> string \<Rightarrow> string list" where
  "split_where P [] = [[]]"
| "split_where P (x # xs) =
     (if P x then [] # split_where P xs
      else (case split_where P xs of w # ws \<Rightarrow> (x # w) # ws | [] \<Rightarrow> [[x]]))"

definition split_ws :: "string \<Rightarrow> string list" where
  "split_ws s = filter (\<lambda>w. w \<noteq> []) (split_where is_space s)"

text \<open>\<open>s.split(sep)[-1]\<close>: the text after the last separator.\<close>

definition after_last :: "char \<Rightarrow> string \<Rightarrow> string" where
  "after_last c s = last (split_on c s)"

text \<open>
  Which exception classes an \<open>except OSError\<close> clause catches: \<open>OSError\<close> and its
  subclasses, among them the exceptions of \<open>requests\<close>.
\<close>

definition is_OSError :: "py_error \<Rightarrow> bool" where
  "is_OSError e = (fst e \<in> {OSError, FileNotFoundError, PermissionError,
                              RequestsTimeout, RequestsConnectionError})"

subsection \<open>Time and locale collector\<close>

text \<open>
  The state that \<open>get_time_locale_info\<close> reads: the formatted current time, the fields of
  the \<open>time\<close> module (\<open>timezone\<close> and \<open>altzone\<close> are seconds west of UTC) and what
  \<open>locale.getdefaultlocale()\<close> gives.
\<close>

record time_state =
  now_text :: string
  tzname :: "string \<times> string"
  daylight :: int
  timezone :: int
  altzone :: int
  getdefaultlocale :: "py_error + (string option \<times> string option)"

definition hdr_time :: string where
  "hdr_time = NL # ''## '' @ [CHR 0xF0, CHR 0x9F, CHR 0x95, CHR 0x90] @ '' Time & Locale''"

definition utc_offset :: "time_state \<Rightarrow> int" where
  "utc_offset s = (if daylight s = 0 then timezone s else altzone s)"

definition offset_hours :: "time_state \<Rightarrow> int" where
  "offset_hours s = (- utc_offset s) div 3600"

definition offset_sign :: "time_state \<Rightarrow> char" where
  "offset_sign s = (if offset_hours s \<ge> 0 then CHR ''+'' else CHR ''-'')"

definition utc_offset_line :: "time_state \<Rightarrow> string" where
  "utc_offset_line s =
     ''- **UTC Offset**: UTC'' @ [offset_sign s] @ zero_pad2 (nat \<bar>offset_hours s\<bar>) @ '':00''"

definition timezone_lines :: "time_state \<Rightarrow> string list" where
  "timezone_lines s =
     [''- **Timezone**: '' @ (if daylight s = 0 then fst (tzname s) else snd (tzname s)),
      utc_offset_line s]"

definition locale_lines :: "time_state \<Rightarrow> string list" where
  "locale_lines s =
     (case getdefaultlocale s of
        Inl e \<Rightarrow> []
      | Inr (lang, enc) \<Rightarrow>
          (if truthy_str lang then [''- **System Language**: '' @ the lang] else []) @
          (if truthy_str enc then [''- **Encoding**: '' @ the enc] else []))"

definition get_time_locale_info :: "time_state \<Rightarrow> py_error + string list" where
  "get_time_locale_info s =
     Inr ([hdr_time, ''- **Current Time**: '' @ now_text s] @ timezone_lines s @ locale_lines s)"

definition india_time :: time_state where
  "india_time = \<lparr>now_text = ''2025-01-01 12:00:00'', tzname = (''IST'', ''IST''), daylight = 0,
     timezone = - 19800, altzone = - 19800, getdefaultlocale = Inr (Some ''en_IN'', Some ''UTF-8'')\<rparr>"

subsection \<open>GPU sub-collector\<close>

text \<open>
  \<open>_get_gpu_info\<close>. The whole body is inside \<open>try ... except Exception: pass\<close>, and
  nothing is appended before the command has returned, so an exception of the command
  helper leaves the list empty.
\<close>

definition gpu_darwin_line :: "string \<Rightarrow> string list" where
  "gpu_darwin_line raw =
     (let line = strip raw in
      if contains line ''Chipset Model:'' then [''- **GPU**: '' @ strip (after_last CHR '':'' line)]
      else if contains line ''VRAM'' then [''  - **VRAM**: '' @ strip (after_last CHR '':'' line)]
      else [])"

definition gpu_linux_line :: "string \<Rightarrow> string list" where
  "gpu_linux_line gpu =
     (let parts = split_on CHR 0x22 gpu in
      if length parts \<ge> 6 then [''- **GPU**: '' @ parts ! 5] else [])"

definition hdr_gpu :: string where
  "hdr_gpu = NL # ''### Graphics Cards''"

definition get_gpu_info :: "string \<Rightarrow> runner \<Rightarrow> string list" where
  "get_gpu_info system run =
     (if system = ''Darwin'' then
        (case safe_subprocess run [''system_profiler'', ''SPDisplaysDataType''] 5 of
           Inl e \<Rightarrow> []
         | Inr gpu_output \<Rightarrow>
             if gpu_output \<noteq> [] then hdr_gpu # concat (map gpu_darwin_line (split_on NL gpu_output))
             else [])
      else if system = ''Linux'' then
        (case safe_subprocess run [''lspci'', ''-mm''] 5 of
           Inl e \<Rightarrow> []
         | Inr gpu_output \<Rightarrow>
             if gpu_output \<noteq> [] then
               (let gpus = filter (\<lambda>line. contains line ''VGA'' \<or> contains line ''3D'')
                                  (split_on NL gpu_output)
                in if gpus \<noteq> [] then hdr_gpu # concat (map gpu_linux_line (take 3 gpus)) else [])
             else [])
      else [])"

text \<open>The GPU entries of an output: its lines \<open>- **GPU**: ...\<close>.\<close>

definition gpu_entries :: "string list \<Rightarrow> string list" where
  "gpu_entries lines = filter (\<lambda>l. startswith l ''- **GPU**: '') lines"

text \<open>What \<open>system_profiler SPDisplaysDataType\<close> prints on a machine with four GPUs.\<close>

definition four_gpu_profile :: string where
  "four_gpu_profile =
     ''Graphics/Displays:'' @ [NL] @
     ''      Chipset Model: AMD Radeon Pro Vega II'' @ [NL] @
     ''      Chipset Model: AMD Radeon Pro Vega II'' @ [NL] @
     ''      Chipset Model: AMD Radeon Pro W6800X'' @ [NL] @
     ''      Chipset Model: AMD Radeon Pro W6800X'' @ [NL]"

subsection \<open>Network collector\<close>

text \<open>
  One address of an interface as \<open>psutil.net_if_addrs()\<close> reports it: the name of the
  address family, the address and the netmask (or \<open>None\<close>).
\<close>

record snicaddr =
  family_name :: string
  address :: string
  netmask :: "string option"

text \<open>The outcome of \<open>requests.get(url, timeout=5)\<close>.\<close>

datatype http_result =
    Response nat string
  | HttpTimeout
  | HttpConnectionFailed
  | HttpRaised py_error

text \<open>
  The state that \<open>get_network_info\<close> reads. The two interface tables are dictionaries
  keyed by interface name; the address table keeps the order of iteration. Each of the
  two \<open>psutil\<close> calls either returns its table or raises.
\<close>

record net_state =
  platform_system :: string
  run_command :: runner
  net_if_addrs :: "py_error + (string \<times> snicaddr list) list"
  net_if_stats :: "py_error + (string \<times> bool) list"
  resolv_conf :: "py_error + string list"
  http_get :: http_result

definition hdr_network :: string where
  "hdr_network = NL # ''## '' @ [CHR 0xF0, CHR 0x9F, CHR 0x8C, CHR 0x90] @ '' Network''"

text \<open>\<open>stats and stats.isup\<close> for \<open>stats = net_stats.get(interface)\<close>.\<close>

definition is_up :: "(string \<times> bool) list \<Rightarrow> string \<Rightarrow> bool" where
  "is_up net_stats interface = (map_of net_stats interface = Some True)"

definition addr_lines :: "snicaddr \<Rightarrow> string list" where
  "addr_lines addr =
     (if family_name addr = ''AF_INET'' then
        [''- **IPv4**: '' @ address addr] @
        (if truthy_str (netmask addr) then [''  - **Netmask**: '' @ the (netmask addr)] else [])
      else if family_name addr = ''AF_INET6'' then
        (if \<not> startswith (address addr) ''fe80'' then [''- **IPv6**: '' @ address addr] else [])
      else [])"

definition interface_lines :: "(string \<times> bool) list \<Rightarrow> string \<times> snicaddr list \<Rightarrow> string list" where
  "interface_lines net_stats entry =
     (let interface = fst entry; addresses = snd entry in
      if startswith interface ''lo'' \<or> startswith interface ''utun'' then []
      else if is_up net_stats interface then
        [NL # ''### '' @ interface,
         ''- **Status**: '' @ (if is_up net_stats interface then ''Up'' else ''Down'')] @
        concat (map addr_lines addresses)
      else [])"

text \<open>
  \<open>_get_default_gateway\<close>: the first line with \<open>gateway:\<close> on macOS, the third word
  of the route on Linux; the empty string otherwise and on any exception.
\<close>

fun first_gateway :: "string list \<Rightarrow> string" where
  "first_gateway [] = ''''"
| "first_gateway (line # rest) =
     (if contains line ''gateway:'' then strip (after_last CHR '':'' line) else first_gateway rest)"

definition get_default_gateway :: "net_state \<Rightarrow> string" where
  "get_default_gateway s =
     (if platform_system s = ''Darwin'' then
        (case safe_subprocess (run_command s) [''route'', ''-n'', ''get'', ''default''] 5 of
           Inl e \<Rightarrow> ''''
         | Inr out \<Rightarrow> first_gateway (split_on NL out))
      else if platform_system s = ''Linux'' then
        (case safe_subprocess (run_command s) [''ip'', ''route'', ''show'', ''default''] 5 of
           Inl e \<Rightarrow> ''''
         | Inr out \<Rightarrow>
             if out \<noteq> [] then
               (let parts = split_ws out in if length parts \<ge> 3 then parts ! 2 else '''')
             else '''')
      else '''')"

text \<open>
  \<open>_get_dns_servers\<close>. On macOS each \<open>nameserver[0]\<close> line adds its server unless it
  is in the list already. On Linux each \<open>nameserver\<close> line of the file adds its second
  word; a line without one raises \<open>IndexError\<close>, which ends the reading and keeps the
  servers found so far.
\<close>

fun scutil_servers :: "string list \<Rightarrow> string list \<Rightarrow> string list" where
  "scutil_servers dns_servers [] = dns_servers"
| "scutil_servers dns_servers (line # rest) =
     (if contains line ''nameserver[0]'' then
        (let dns = strip (after_last CHR '':'' line) in
         if dns \<notin> set dns_servers then scutil_servers (dns_servers @ [dns]) rest
         else scutil_servers dns_servers rest)
      else scutil_servers dns_servers rest)"

fun resolv_servers :: "string list \<Rightarrow> string list \<Rightarrow> string list" where
  "resolv_servers dns_servers [] = dns_servers"
| "resolv_servers dns_servers (line # rest) =
     (if startswith line ''nameserver'' then
        (case split_ws line of
           w # dns # ws \<Rightarrow> resolv_servers (dns_servers @ [dns]) rest
         | _ \<Rightarrow> dns_servers)
      else resolv_servers dns_servers rest)"

definition get_dns_servers :: "net_state \<Rightarrow> string list" where
  "get_dns_servers s =
     (if platform_system s = ''Darwin'' then
        (case safe_subprocess (run_command s) [''scutil'', ''--dns''] 5 of
           Inl e \<Rightarrow> []
         | Inr out \<Rightarrow> scutil_servers [] (split_on NL out))
      else if platform_system s = ''Linux'' then
        (case resolv_conf s of Inl e \<Rightarrow> [] | Inr file_lines \<Rightarrow> resolv_servers [] file_lines)
      else [])"

text \<open>\<open>_get_external_ip\<close>: every exception of the lookup is caught.\<close>

definition get_external_ip :: "net_state \<Rightarrow> string" where
  "get_external_ip s =
     (case http_get s of
        Response status_code body \<Rightarrow>
          if status_code = 200 then strip body else ''Unable to determine''
      | HttpTimeout \<Rightarrow> ''Unable to determine''
      | HttpConnectionFailed \<Rightarrow> ''Unable to determine''
      | HttpRaised e \<Rightarrow> ''Unable to determine'')"

text \<open>\<open>_detect_vpn\<close> walks over every interface of the address table.\<close>

definition vpn_name_match :: "string \<Rightarrow> bool" where
  "vpn_name_match interface =
     (\<exists>vpn_name \<in> set [''tun'', ''tap'', ''vpn'', ''utun'']. contains (lower interface) vpn_name)"

fun detect_vpn :: "string list \<Rightarrow> (string \<times> bool) list \<Rightarrow> string" where
  "detect_vpn [] net_stats = ''Not detected''"
| "detect_vpn (interface # rest) net_stats =
     (if vpn_name_match interface \<and> is_up net_stats interface then ''Active''
      else detect_vpn rest net_stats)"

definition join_comma :: "string list \<Rightarrow> string" where
  "join_comma xs = join '', '' xs"

definition network_tail :: "net_state \<Rightarrow> (string \<times> snicaddr list) list \<Rightarrow> (string \<times> bool) list \<Rightarrow> string list" where
  "network_tail s net_interfaces net_stats =
     (let gateway = get_default_gateway s; dns_servers = get_dns_servers s in
      (if gateway \<noteq> [] then [NL # ''- **Default Gateway**: '' @ gateway] else []) @
      (if dns_servers \<noteq> [] then [''- **DNS Servers**: '' @ join_comma (take 3 dns_servers)] else []) @
      [''- **External IP**: '' @ get_external_ip s,
       ''- **VPN Status**: '' @ detect_vpn (map fst net_interfaces) net_stats])"

definition get_network_info :: "net_state \<Rightarrow> py_error + string list" where
  "get_network_info s =
     (case net_if_addrs s of
        Inl e \<Rightarrow> Inl e
      | Inr net_interfaces \<Rightarrow>
          (case net_if_stats s of
             Inl e \<Rightarrow> Inl e
           | Inr net_stats \<Rightarrow>
               Inr (hdr_network # concat (map (interface_lines net_stats) net_interfaces) @
                    network_tail s net_interfaces net_stats)))"

text \<open>The lines that open the section of an interface.\<close>

definition interface_header :: "string \<Rightarrow> string" where
  "interface_header interface = NL # ''### '' @ interface"


text \<open>
  A Linux machine with a loopback interface, a wired interface that has a link-local and
  a global IPv6 address, a wireless interface that is down and a tunnel that is up; the
  external lookup times out.
\<close>

definition laptop_ifs :: "(string \<times> snicaddr list) list" where
  "laptop_ifs = [
     (''lo'', [\<lparr>family_name = ''AF_INET'', address = ''127.0.0.1'', netmask = Some ''255.0.0.0''\<rparr>]),
     (''eth0'', [\<lparr>family_name = ''AF_INET'', address = ''10.0.0.5'', netmask = Some ''255.255.255.0''\<rparr>,
                 \<lparr>family_name = ''AF_INET6'', address = ''fe80::1c2d'', netmask = None\<rparr>,
                 \<lparr>family_name = ''AF_INET6'', address = ''2001:db8::5'', netmask = None\<rparr>]),
     (''wlan0'', [\<lparr>family_name = ''AF_INET'', address = ''10.0.1.7'', netmask = None\<rparr>]),
     (''utun3'', [\<lparr>family_name = ''AF_INET'', address = ''10.8.0.2'', netmask = None\<rparr>])]"

definition laptop_stats :: "(string \<times> bool) list" where
  "laptop_stats = [(''lo'', True), (''eth0'', True), (''wlan0'', False), (''utun3'', True)]"

definition laptop_net :: net_state where
  "laptop_net = \<lparr>
     platform_system = ''Linux'',
     run_command = (\<lambda>cmd t. if cmd = [''ip'', ''route'', ''show'', ''default'']
                             then Exited 0 ''default via 10.0.0.1 dev eth0'' else MissingBinary),
     net_if_addrs = Inr laptop_ifs,
     net_if_stats = Inr laptop_stats,
     resolv_conf = Inr [''# resolv.conf'' @ [NL], ''nameserver 10.0.0.1'' @ [NL]],
     http_get = HttpTimeout\<rparr>"

definition laptop_report :: "string list" where
  "laptop_report =
     [hdr_network, interface_header ''eth0'', ''- **Status**: Up'', ''- **IPv4**: 10.0.0.5'',
      ''  - **Netmask**: 255.255.255.0'', ''- **IPv6**: 2001:db8::5'',
      NL # ''- **Default Gateway**: 10.0.0.1'', ''- **DNS Servers**: 10.0.0.1'',
      ''- **External IP**: Unable to determine'', ''- **VPN Status**: Active'']"




definition lookup_failed :: "http_result \<Rightarrow> bool" where
  "lookup_failed r =
     (case r of Response status_code body \<Rightarrow> status_code \<noteq> 200 | _ \<Rightarrow> True)"

subsection \<open>Fixed-point formatting\<close>

text \<open>
  The format \<open>:.1f\<close> rounds the number to the nearest tenth, an exact tie to the even
  tenth, and prints the sign, the integer part, a point and one digit. The numbers are
  rationals here: Python computes them in binary floating point, which is exact on the
  values of the examples (quotients such as 0.75 and 25.0) and within a rounding error
  of the rational elsewhere.
\<close>

definition round_half_even :: "rat \<Rightarrow> int" where
  "round_half_even x =
     (let f = \<lfloor>x\<rfloor>; d = x - of_int f in
      if d < 1 / 2 then f else if d > 1 / 2 then f + 1 else if even f then f else f + 1)"

definition tenths :: "rat \<Rightarrow> int" where
  "tenths x = round_half_even (x * 10)"

definition fmt_1f :: "rat \<Rightarrow> string" where
  "fmt_1f x =
     (let t = nat \<bar>tenths x\<bar> in
      (if x < 0 then ''-'' else '''') @ show_nat (t div 10) @ ''.'' @ [digit_char (t mod 10)])"

subsection \<open>Storage collector\<close>

record partition =
  device :: string
  mountpoint :: string
  fstype :: string
  opts :: string

record disk_usage_t =
  total_bytes :: nat
  used_bytes :: nat
  free_bytes :: nat

text \<open>
  The state that \<open>get_storage_info\<close> reads: the partition list and, for each mount
  point, what \<open>psutil.disk_usage\<close> returns or raises.
\<close>

record storage_state =
  disk_partitions :: "py_error + partition list"
  disk_usage :: "string \<Rightarrow> py_error + disk_usage_t"

definition hdr_storage :: string where
  "hdr_storage = NL # ''## '' @ [CHR 0xF0, CHR 0x9F, CHR 0x92, CHR 0xBE] @ '' Storage''"

definition GiB :: rat where
  "GiB = 1024 ^ 3"

definition used_percent :: "disk_usage_t \<Rightarrow> rat" where
  "used_percent u = (of_nat (used_bytes u) / of_nat (total_bytes u)) * 100"

definition free_line :: "disk_usage_t \<Rightarrow> string" where
  "free_line u =
     ''- **Free**: '' @ fmt_1f (of_nat (free_bytes u) / GiB) @ '' GB ('' @
     fmt_1f (100 - used_percent u) @ ''% free)''"

definition used_line :: "disk_usage_t \<Rightarrow> string" where
  "used_line u = ''- **Used**: '' @ fmt_1f (used_percent u) @ ''%''"

definition partition_report :: "partition \<Rightarrow> disk_usage_t \<Rightarrow> string \<Rightarrow> string list" where
  "partition_report p u disk_type =
     [NL # ''### '' @ device p @ '' ('' @ mountpoint p @ '')'',
      ''- **Type**: '' @ disk_type @ '' ('' @ fstype p @ '')'',
      ''- **Total**: '' @ fmt_1f (of_nat (total_bytes u) / GiB) @ '' GB'',
      free_line u,
      used_line u]"

text \<open>
  One round of the loop over the partitions. \<open>PermissionError\<close> and \<open>OSError\<close> of the
  usage call skip the partition; the division \<open>used / total\<close> raises
  \<open>ZeroDivisionError\<close> on a total of zero, before the file system type is looked at, and
  the \<open>except\<close> clause does not catch it.
\<close>

definition partition_lines :: "storage_state \<Rightarrow> partition \<Rightarrow> py_error + string list" where
  "partition_lines s p =
     (case disk_usage s (mountpoint p) of
        Inl e \<Rightarrow> if is_OSError e then Inr [] else Inl e
      | Inr u \<Rightarrow>
          if total_bytes u = 0 then Inl (ZeroDivisionError, ''division by zero'')
          else if opts p \<noteq> [] \<and> contains (opts p) ''removable'' then
            Inr (partition_report p u ''Removable'')
          else if fstype p \<in> set [''tmpfs'', ''devtmpfs''] then Inr []
          else Inr (partition_report p u ''Fixed''))"

fun storage_loop :: "storage_state \<Rightarrow> partition list \<Rightarrow> py_error + string list" where
  "storage_loop s [] = Inr []"
| "storage_loop s (p # ps) =
     (case partition_lines s p of
        Inl e \<Rightarrow> Inl e
      | Inr ls \<Rightarrow> (case storage_loop s ps of Inl e \<Rightarrow> Inl e | Inr rest \<Rightarrow> Inr (ls @ rest)))"

definition get_storage_info :: "storage_state \<Rightarrow> py_error + string list" where
  "get_storage_info s =
     (case disk_partitions s of
        Inl e \<Rightarrow> Inl e
      | Inr ps \<Rightarrow> (case storage_loop s ps of Inl e \<Rightarrow> Inl e | Inr ls \<Rightarrow> Inr (hdr_storage # ls)))"

text \<open>A disk of 100 GiB with 25 GiB free, mounted at the root.\<close>

definition root_partition :: partition where
  "root_partition = \<lparr>device = ''/dev/sda1'', mountpoint = ''/'', fstype = ''ext4'', opts = ''rw,relatime''\<rparr>"

definition root_usage :: disk_usage_t where
  "root_usage = \<lparr>total_bytes = 107374182400, used_bytes = 80530636800, free_bytes = 26843545600\<rparr>"

definition one_disk :: storage_state where
  "one_disk = \<lparr>disk_partitions = Inr [root_partition], disk_usage = (\<lambda>m. Inr root_usage)\<rparr>"

subsection \<open>Process collector\<close>

text \<open>
  One entry of \<open>psutil.process_iter\<close>: the attributes fetched with the entry
  (\<open>name\<close>, \<open>exe\<close> and \<open>cmdline\<close> are \<open>None\<close> where access was denied), and what
  the call \<open>proc.cpu_percent()\<close> returns or raises. Percentages are floats in the
  source and rationals here; the memory percentage is the number that \<open>psutil\<close>
  reports, and an entry for which it reports none is not in the type.
\<close>

record proc_entry =
  entry_pid :: nat
  entry_name :: "string option"
  entry_memory_percent :: rat
  entry_exe :: "string option"
  entry_cmdline :: "string list option"
  cpu_percent_call :: "py_error + rat"

text \<open>The dictionary \<open>pinfo\<close> after \<open>cpu_percent\<close> has been stored in it.\<close>

record pinfo =
  pid :: nat
  name :: string
  cpu_percent :: rat
  memory_percent :: rat
  exe :: "string option"
  cmdline :: "string list option"

definition make_pinfo :: "proc_entry \<Rightarrow> rat \<Rightarrow> pinfo" where
  "make_pinfo p c =
     \<lparr>pid = entry_pid p, name = the (entry_name p), cpu_percent = c,
      memory_percent = entry_memory_percent p, exe = entry_exe p, cmdline = entry_cmdline p\<rparr>"

text \<open>
  The loop that fills \<open>processes\<close>. An entry without a name is left out; an entry whose
  \<open>cpu_percent\<close> call raises \<open>NoSuchProcess\<close>, \<open>AccessDenied\<close> or \<open>ZombieProcess\<close>
  is skipped; any other exception leaves the loop.
\<close>

fun collect_processes :: "proc_entry list \<Rightarrow> py_error + pinfo list" where
  "collect_processes [] = Inr []"
| "collect_processes (p # ps) =
     (if truthy_str (entry_name p) then
        (case cpu_percent_call p of
           Inl e \<Rightarrow>
             if fst e \<in> {NoSuchProcess, AccessDenied, ZombieProcess} then collect_processes ps
             else Inl e
         | Inr c \<Rightarrow>
             (case collect_processes ps of
                Inl e \<Rightarrow> Inl e
              | Inr rest \<Rightarrow> Inr (make_pinfo p c # rest)))
      else collect_processes ps)"

definition sort_key_of :: "pinfo \<Rightarrow> rat \<times> rat" where
  "sort_key_of p = (cpu_percent p, memory_percent p)"

text \<open>
  \<open>list.sort(key=..., reverse=True)\<close> is stable: it sorts the reversed list in
  ascending order and reverses the result, so entries with equal keys keep their order.
\<close>

definition sort_descending :: "pinfo list \<Rightarrow> pinfo list" where
  "sort_descending ps = rev (sort_key sort_key_of (rev ps))"

definition allow_list :: "string list" where
  "allow_list = [''kernel_task'', ''systemd'', ''init'', ''launchd'']"

definition display_name :: "pinfo \<Rightarrow> string" where
  "display_name p = take 20 (name p)"

definition display_path :: "pinfo \<Rightarrow> string" where
  "display_path p =
     (let exe_path0 = (case exe p of None \<Rightarrow> '''' | Some x \<Rightarrow> x);
          exe_path =
            (if exe_path0 = [] then
               (case cmdline p of
                  None \<Rightarrow> exe_path0
                | Some [] \<Rightarrow> exe_path0
                | Some (arg # args) \<Rightarrow> arg)
             else exe_path0)
      in if exe_path \<noteq> [] then
           (if length exe_path > 40 then ''...'' @ drop (length exe_path - 37) exe_path
            else exe_path)
         else ''N/A'')"

definition shown_process :: "pinfo \<Rightarrow> bool" where
  "shown_process p =
     (cpu_percent p > 1 / 10 \<or> memory_percent p > 1 / 2 \<or>
      lower (display_name p) \<in> set allow_list)"

definition process_row :: "pinfo \<Rightarrow> string" where
  "process_row p =
     ''| '' @ show_nat (pid p) @ '' | '' @ display_name p @ '' | '' @ fmt_1f (cpu_percent p) @
     ''% | '' @ fmt_1f (memory_percent p) @ ''% | '' @ display_path p @ '' |''"

fun rows_loop :: "nat \<Rightarrow> pinfo list \<Rightarrow> string list" where
  "rows_loop n [] = []"
| "rows_loop n (p # ps) =
     (if n \<ge> 20 then []
      else if shown_process p then process_row p # rows_loop (n + 1) ps
      else rows_loop n ps)"

definition process_summary :: "pinfo list \<Rightarrow> string" where
  "process_summary processes =
     NL # ''**Summary**: '' @ show_nat (length processes) @ '' total processes, '' @
     show_nat (length (filter (\<lambda>p. cpu_percent p > 0) processes)) @ '' active''"

definition hdr_processes :: string where
  "hdr_processes = ''## '' @ [CHR 0xE2, CHR 0x9A, CHR 0x99, CHR 0xEF, CHR 0xB8, CHR 0x8F] @
     '' Running Processes''"

definition warning_sign :: string where
  "warning_sign = [CHR 0xE2, CHR 0x9A, CHR 0xA0, CHR 0xEF, CHR 0xB8, CHR 0x8F]"

definition process_error_line :: "py_error \<Rightarrow> string" where
  "process_error_line e =
     warning_sign @ '' **Error collecting process information**: '' @ exc_str e"

definition table_head :: "string list" where
  "table_head =
     [NL # ''### Top Processes (by CPU/Memory usage)'',
      ''| PID | Name | CPU% | Memory% | Path |'',
      ''|-----|------|------|---------|------|'']"

definition process_table :: "pinfo list \<Rightarrow> string list" where
  "process_table processes =
     table_head @ rows_loop 0 (sort_descending processes) @ [process_summary processes]"

definition get_running_processes :: "(py_error + proc_entry list) \<Rightarrow> py_error + string list" where
  "get_running_processes process_iter =
     Inr (hdr_processes #
          (case process_iter of
             Inl e \<Rightarrow> [process_error_line e]
           | Inr entries \<Rightarrow>
               (case collect_processes entries of
                  Inl e \<Rightarrow> [process_error_line e]
                | Inr processes \<Rightarrow> process_table processes)))"


text \<open>Two idle processes, one of them \<open>systemd\<close>; and an idle process named \<open>Systemd\<close>.\<close>

definition idle_entry :: "nat \<Rightarrow> string \<Rightarrow> proc_entry" where
  "idle_entry i n =
     \<lparr>entry_pid = i, entry_name = Some n, entry_memory_percent = 0, entry_exe = None,
      entry_cmdline = None, cpu_percent_call = Inr 0\<rparr>"

definition two_idle :: "proc_entry list" where
  "two_idle = [idle_entry 812 ''cron'', idle_entry 1 ''systemd'']"





subsection \<open>Port collector\<close>

text \<open>
  The entries of a socket table are named tuples of \<open>psutil\<close>. The system-wide table
  \<open>psutil.net_connections\<close> gives \<open>sconn\<close> entries: the socket type (1 is
  \<open>SOCK_STREAM\<close>), the local and the remote address (an empty tuple in the source is
  \<open>None\<close> here), the status and the owning pid, if known. The table of one process,
  \<open>psutil.Process().connections\<close>, gives \<open>pconn\<close> entries, which have no field
  \<open>pid\<close>.
\<close>

record sconn =
  s_type :: int
  s_laddr :: "(string \<times> nat) option"
  s_raddr :: "(string \<times> nat) option"
  s_status :: string
  s_pid :: "nat option"

record pconn =
  p_type :: int
  p_laddr :: "(string \<times> nat) option"
  p_raddr :: "(string \<times> nat) option"
  p_status :: string

datatype connection = Sconn sconn | Pconn pconn

text \<open>
  The attributes that the loop reads of an entry \<open>conn\<close>. Reading \<open>conn.pid\<close> of a
  \<open>pconn\<close> entry raises \<open>AttributeError\<close>.
\<close>

fun conn_status :: "connection \<Rightarrow> string" where
  "conn_status (Sconn c) = s_status c"
| "conn_status (Pconn c) = p_status c"

fun conn_type :: "connection \<Rightarrow> int" where
  "conn_type (Sconn c) = s_type c"
| "conn_type (Pconn c) = p_type c"

fun laddr :: "connection \<Rightarrow> (string \<times> nat) option" where
  "laddr (Sconn c) = s_laddr c"
| "laddr (Pconn c) = p_laddr c"

fun raddr :: "connection \<Rightarrow> (string \<times> nat) option" where
  "raddr (Sconn c) = s_raddr c"
| "raddr (Pconn c) = p_raddr c"

fun conn_pid :: "connection \<Rightarrow> py_error + nat option" where
  "conn_pid (Sconn c) = Inr (s_pid c)"
| "conn_pid (Pconn c) = Inl (AttributeError, ''pconn object has no attribute pid'')"

text \<open>
  What \<open>psutil.Process(pid)\<close> gives when it does not raise: the outcomes of the calls
  \<open>name()\<close> and \<open>exe()\<close> on the process.
\<close>

record proc_handle =
  proc_name :: "py_error + string"
  proc_exe :: "py_error + string"

text \<open>
  The state that \<open>get_network_ports\<close> reads: the system-wide socket table, what the
  second attempt (the same call with a further argument \<open>pid=None\<close>) and the table of
  the current process give when they are tried, and the process table.
\<close>

record ports_state =
  net_connections :: "py_error + sconn list"
  net_connections_retry :: "py_error + sconn list"
  own_connections :: "py_error + pconn list"
  process_of :: "nat \<Rightarrow> py_error + proc_handle"

definition caught_by_lookup :: "py_error \<Rightarrow> bool" where
  "caught_by_lookup e = (fst e \<in> {NoSuchProcess, ZombieProcess, AccessDenied} \<or> is_OSError e)"

definition caught_by_exe :: "py_error \<Rightarrow> bool" where
  "caught_by_exe e = (fst e = AccessDenied \<or> is_OSError e)"

text \<open>
  The name and the executable of the owner of a listening socket. A pid that is \<open>None\<close>
  or 0 is false in the condition \<open>if conn.pid\<close>. An exception that neither \<open>except\<close>
  clause catches leaves the function as \<open>Inl\<close>.
\<close>

definition resolve_process :: "(nat \<Rightarrow> py_error + proc_handle) \<Rightarrow> nat option \<Rightarrow> py_error + (string \<times> string)" where
  "resolve_process procs p =
     (case p of
        None \<Rightarrow> Inr (''Unknown'', ''N/A'')
      | Some i \<Rightarrow>
          if i = 0 then Inr (''Unknown'', ''N/A'')
          else
            (case procs i of
               Inl e \<Rightarrow> if caught_by_lookup e then Inr (''Access denied'', ''N/A'') else Inl e
             | Inr h \<Rightarrow>
                 (case proc_name h of
                    Inl e \<Rightarrow> if caught_by_lookup e then Inr (''Access denied'', ''N/A'') else Inl e
                  | Inr nm \<Rightarrow>
                      (case proc_exe h of
                         Inr x \<Rightarrow> Inr (nm, if x \<noteq> [] then x else ''N/A'')
                       | Inl e \<Rightarrow>
                           if caught_by_exe e then Inr (nm, ''Access denied'')
                           else if caught_by_lookup e then Inr (''Access denied'', ''N/A'')
                           else Inl e))))"

record port_info =
  port :: nat
  ip :: string
  protocol :: string
  process :: string
  executable :: string
  owner_pid :: "nat option"

record established =
  local_end :: string
  remote_end :: string
  est_pid :: "nat option"

definition port_key :: "string \<Rightarrow> nat \<Rightarrow> string" where
  "port_key a n = a @ '':'' @ show_nat n"

definition is_listening :: "connection \<Rightarrow> bool" where
  "is_listening c = (conn_status c = ''LISTEN'' \<and> laddr c \<noteq> None)"

definition is_established :: "connection \<Rightarrow> bool" where
  "is_established c = (conn_status c = ''ESTABLISHED'' \<and> laddr c \<noteq> None \<and> raddr c \<noteq> None)"

definition make_port_info :: "connection \<Rightarrow> nat option \<Rightarrow> string \<times> string \<Rightarrow> port_info" where
  "make_port_info c p r =
     \<lparr>port = snd (the (laddr c)), ip = fst (the (laddr c)),
      protocol = (if conn_type c = 1 then ''TCP'' else ''UDP''),
      process = fst r, executable = snd r, owner_pid = p\<rparr>"

definition make_established :: "connection \<Rightarrow> nat option \<Rightarrow> established" where
  "make_established c p =
     \<lparr>local_end = port_key (fst (the (laddr c))) (snd (the (laddr c))),
      remote_end = port_key (fst (the (raddr c))) (snd (the (raddr c))),
      est_pid = p\<rparr>"

text \<open>
  One round of the loop over the connections, on the dictionary \<open>listening_ports\<close> (in
  insertion order) and the list \<open>established_connections\<close>. An exception in the round
  (reading \<open>conn.pid\<close> of an entry that has none, or an owner lookup that raises an
  exception no inner clause catches) is caught by \<open>except Exception: continue\<close>, and the
  round changes nothing.
\<close>

definition scan_step :: "(nat \<Rightarrow> py_error + proc_handle) \<Rightarrow> connection \<Rightarrow>
    (string \<times> port_info) list \<times> established list \<Rightarrow> (string \<times> port_info) list \<times> established list" where
  "scan_step procs c acc =
     (let listening_ports = fst acc; established_connections = snd acc in
      if is_listening c then
        (let key = port_key (fst (the (laddr c))) (snd (the (laddr c))) in
         if key \<notin> set (map fst listening_ports) then
           (case conn_pid c of
              Inl e \<Rightarrow> acc
            | Inr p \<Rightarrow>
                (case resolve_process procs p of
                   Inl e \<Rightarrow> acc
                 | Inr r \<Rightarrow>
                     (listening_ports @ [(key, make_port_info c p r)], established_connections)))
         else acc)
      else if is_established c then
        (case conn_pid c of
           Inl e \<Rightarrow> acc
         | Inr p \<Rightarrow> (listening_ports, established_connections @ [make_established c p]))
      else acc)"

fun scan_connections :: "(nat \<Rightarrow> py_error + proc_handle) \<Rightarrow> connection list \<Rightarrow>
    (string \<times> port_info) list \<times> established list \<Rightarrow> (string \<times> port_info) list \<times> established list" where
  "scan_connections procs [] acc = acc"
| "scan_connections procs (c # cs) acc = scan_connections procs cs (scan_step procs c acc)"

definition bind_address :: "string \<Rightarrow> string" where
  "bind_address a =
     (let bind_addr = (if a = ''0.0.0.0'' then ''All interfaces'' else a) in
      if a = ''127.0.0.1'' then ''Localhost only''
      else if startswith a ''::'' then ''IPv6''
      else bind_addr)"

definition show_pid :: "nat option \<Rightarrow> string" where
  "show_pid p = (case p of None \<Rightarrow> ''N/A'' | Some i \<Rightarrow> if i = 0 then ''N/A'' else show_nat i)"

definition port_row :: "port_info \<Rightarrow> string" where
  "port_row i =
     ''| '' @ show_nat (port i) @ '' | '' @ protocol i @ '' | '' @ bind_address (ip i) @ '' | '' @
     take_chars 25 (process i) @ '' | '' @ show_pid (owner_pid i) @ '' |''"

definition sorted_ports :: "(string \<times> port_info) list \<Rightarrow> port_info list" where
  "sorted_ports listening_ports = sort_key port (map snd listening_ports)"

definition listening_lines :: "(string \<times> port_info) list \<Rightarrow> string list" where
  "listening_lines listening_ports =
     (if listening_ports \<noteq> [] then
        [NL # ''### Listening Ports'',
         ''| Port | Protocol | Bind Address | Process | PID |'',
         ''|------|----------|--------------|---------|-----|''] @
        map port_row (sorted_ports listening_ports)
      else [])"

text \<open>The count of connections per remote host, hosts in order of first appearance.\<close>

fun count_host :: "string \<Rightarrow> (string \<times> nat) list \<Rightarrow> (string \<times> nat) list" where
  "count_host h [] = [(h, 1)]"
| "count_host h ((k, n) # rest) = (if k = h then (k, n + 1) # rest else (k, n) # count_host h rest)"

definition remote_hosts :: "established list \<Rightarrow> (string \<times> nat) list" where
  "remote_hosts es = foldl (\<lambda>hosts e. count_host (hd (split_on CHR '':'' (remote_end e))) hosts) [] es"

definition host_line :: "string \<times> nat \<Rightarrow> string" where
  "host_line hc =
     ''- '' @ fst hc @ '': '' @ show_nat (snd hc) @ '' connection'' @ (if snd hc > 1 then ''s'' else '''')"

definition top_hosts :: "(string \<times> nat) list \<Rightarrow> (string \<times> nat) list" where
  "top_hosts hosts = take 10 (rev (sort_key snd (rev hosts)))"

definition established_lines :: "established list \<Rightarrow> string list" where
  "established_lines es =
     (if es \<noteq> [] then
        [NL # ''### Active Connections'',
         ''**Total established connections**: '' @ show_nat (length es)] @
        (if remote_hosts es \<noteq> [] then
           (NL # ''**Top remote hosts by connection count**:'') # map host_line (top_hosts (remote_hosts es))
         else [])
      else [])"

definition ports_summary :: "(string \<times> port_info) list \<Rightarrow> established list \<Rightarrow> string" where
  "ports_summary listening_ports es =
     NL # ''**Summary**: '' @ show_nat (length listening_ports) @ '' listening ports, '' @
     show_nat (length es) @ '' active connections''"

text \<open>
  The three attempts at the socket table: the second is made when the first raises
  \<open>AccessDenied\<close>, the third when the second raises anything. The third gives the
  entries of the current process, which are \<open>pconn\<close> entries.
\<close>

definition connections_of :: "ports_state \<Rightarrow> py_error + connection list" where
  "connections_of s =
     (case net_connections s of
        Inr conns \<Rightarrow> Inr (map Sconn conns)
      | Inl e \<Rightarrow>
          if fst e = AccessDenied then
            (case net_connections_retry s of
               Inr conns \<Rightarrow> Inr (map Sconn conns)
             | Inl e2 \<Rightarrow>
                 (case own_connections s of
                    Inr conns \<Rightarrow> Inr (map Pconn conns)
                  | Inl e3 \<Rightarrow> Inl e3))
          else Inl e)"

definition hdr_ports :: string where
  "hdr_ports = ''## '' @ [CHR 0xF0, CHR 0x9F, CHR 0x8C, CHR 0x90] @ '' Network Ports''"

definition ports_error_line :: "py_error \<Rightarrow> string" where
  "ports_error_line e =
     warning_sign @ '' **Error collecting network port information**: '' @ exc_str e"

definition ports_report :: "(string \<times> port_info) list \<times> established list \<Rightarrow> string list" where
  "ports_report acc =
     listening_lines (fst acc) @ established_lines (snd acc) @ [ports_summary (fst acc) (snd acc)]"

definition get_network_ports :: "ports_state \<Rightarrow> py_error + string list" where
  "get_network_ports s =
     Inr (hdr_ports #
          (case connections_of s of
             Inl e \<Rightarrow> [ports_error_line e]
           | Inr connections \<Rightarrow> ports_report (scan_connections (process_of s) connections ([], []))))"

text \<open>The bind addresses and ports of the listening sockets of a socket table.\<close>

definition listening_pairs :: "connection list \<Rightarrow> (string \<times> nat) set" where
  "listening_pairs conns = {the (laddr c) | c. c \<in> set conns \<and> is_listening c}"




text \<open>
  A socket table in which the web server listens twice on the same address and port
  (once per worker) and the owner of the ssh socket may not be inspected.
\<close>

definition web_socket :: sconn where
  "web_socket = \<lparr>s_type = 1, s_laddr = Some (''0.0.0.0'', 8080), s_raddr = None,
     s_status = ''LISTEN'', s_pid = Some 40\<rparr>"

definition ssh_socket :: sconn where
  "ssh_socket = \<lparr>s_type = 1, s_laddr = Some (''127.0.0.1'', 22), s_raddr = None,
     s_status = ''LISTEN'', s_pid = Some 7\<rparr>"

definition server_processes :: "nat \<Rightarrow> py_error + proc_handle" where
  "server_processes p =
     (if p = 40 then Inr \<lparr>proc_name = Inr ''nginx'', proc_exe = Inr ''/usr/sbin/nginx''\<rparr>
      else Inl (AccessDenied, ''psutil.AccessDenied''))"

definition server_sockets :: ports_state where
  "server_sockets = \<lparr>net_connections = Inr [web_socket, ssh_socket, web_socket],
     net_connections_retry = Inr [], own_connections = Inr [], process_of = server_processes\<rparr>"



text \<open>
  The same table on a machine where the lookup of the web server's process fails with an
  exception that no inner clause catches.
\<close>

definition failing_lookup :: "nat \<Rightarrow> py_error + proc_handle" where
  "failing_lookup p = Inl (RuntimeError, ''lookup failed'')"

definition failing_sockets :: ports_state where
  "failing_sockets = \<lparr>net_connections = Inr [web_socket],
     net_connections_retry = Inr [], own_connections = Inr [], process_of = failing_lookup\<rparr>"

subsection \<open>Identity collector\<close>

text \<open>The values of the \<open>platform\<close> module and the command runner of the machine.\<close>

record host =
  host_system :: string
  host_node :: string
  host_release :: string
  host_machine :: string
  host_processor :: string
  host_run :: runner

definition hdr_identity :: string where
  "hdr_identity = ''## '' @ [CHR 0xF0, CHR 0x9F, CHR 0x96, CHR 0xA5, CHR 0xEF, CHR 0xB8, CHR 0x8F] @
     '' System Identity''"

fun serial_line :: "string list \<Rightarrow> string list" where
  "serial_line [] = []"
| "serial_line (line # rest) =
     (if contains line ''Serial Number''
      then [''- **Serial Number**: '' @ strip (after_last CHR '':'' line)]
      else serial_line rest)"

text \<open>
  \<open>get_system_identity\<close> calls the command helper outside any \<open>try\<close>: an exception that
  the helper does not catch leaves the collector.
\<close>

definition get_system_identity :: "host \<Rightarrow> py_error + string list" where
  "get_system_identity h =
     (let info = [hdr_identity,
                  ''- **Hostname**: '' @ host_node h,
                  ''- **Platform**: '' @ host_system h @ '' '' @ host_release h,
                  ''- **Architecture**: '' @ host_machine h,
                  ''- **Processor**: '' @ host_processor h]
      in if host_system h = ''Darwin'' then
           (case safe_subprocess (host_run h) [''system_profiler'', ''SPHardwareDataType''] 5 of
              Inl e \<Rightarrow> Inl e
            | Inr serial_output \<Rightarrow> Inr (info @ serial_line (split_on NL serial_output)))
         else Inr info)"

subsection \<open>Hardware collector\<close>

text \<open>
  The probes of \<open>get_hardware_info\<close>, each returning its value or raising: the two CPU
  counts (\<open>None\<close> when unknown), the frequency (current and maximum, or \<open>None\<close>), the
  CPU load, the memory (total, available, percent), the swap (total, percent) and the boot
  time in seconds. The text of a float printed without a format and the text of the boot
  time are taken from the state, as is the list that \<open>_get_battery_info\<close> returns; the
  body of that helper is inside \<open>try ... except Exception\<close>.
\<close>

record hardware_state =
  cpu_count_physical :: "py_error + nat option"
  cpu_count_logical :: "py_error + nat option"
  cpu_freq :: "py_error + (rat \<times> rat) option"
  cpu_percent_probe :: "py_error + rat"
  virtual_memory :: "py_error + nat \<times> nat \<times> rat"
  swap_memory :: "py_error + nat \<times> rat"
  boot_time :: "py_error + rat"
  clock_now :: rat
  float_str :: "rat \<Rightarrow> string"
  boot_time_text :: string
  battery_info :: "string list"

definition bind_result :: "(py_error + 'a) \<Rightarrow> ('a \<Rightarrow> py_error + 'b) \<Rightarrow> py_error + 'b" where
  "bind_result r f = (case r of Inl e \<Rightarrow> Inl e | Inr x \<Rightarrow> f x)"

definition show_count :: "nat option \<Rightarrow> string" where
  "show_count c = (case c of None \<Rightarrow> ''None'' | Some n \<Rightarrow> show_nat n)"

text \<open>The format \<open>:.0f\<close>.\<close>

definition fmt_0f :: "rat \<Rightarrow> string" where
  "fmt_0f x = (if x < 0 then ''-'' else '''') @ show_nat (nat \<bar>round_half_even x\<bar>)"

definition hdr_hardware :: string where
  "hdr_hardware = NL # ''## '' @ [CHR 0xF0, CHR 0x9F, CHR 0x94, CHR 0xA7] @ '' Hardware''"

definition get_hardware_info :: "host \<Rightarrow> hardware_state \<Rightarrow> py_error + string list" where
  "get_hardware_info h s =
     bind_result (cpu_count_physical s) (\<lambda>cpu_count.
     bind_result (cpu_count_logical s) (\<lambda>cpu_logical.
     bind_result (cpu_freq s) (\<lambda>freq.
     bind_result (cpu_percent_probe s) (\<lambda>cpu_percent.
     bind_result (virtual_memory s) (\<lambda>memory.
     bind_result (swap_memory s) (\<lambda>swap.
     bind_result (boot_time s) (\<lambda>boot.
       (let uptime = clock_now s - boot;
            days = \<lfloor>uptime / 86400\<rfloor>;
            seconds = \<lfloor>uptime - of_int days * 86400\<rfloor>
        in Inr (
          [hdr_hardware,
           ''- **CPU Cores**: '' @ show_count cpu_count @ '' physical, '' @ show_count cpu_logical @ '' logical''] @
          (case freq of
             None \<Rightarrow> []
           | Some f \<Rightarrow> [''- **CPU Frequency**: '' @ fmt_0f (fst f) @ '' MHz (max: '' @ fmt_0f (snd f) @ '' MHz)'']) @
          [''- **CPU Usage**: '' @ float_str s cpu_percent @ ''%'',
           ''- **Total RAM**: '' @ fmt_1f (of_nat (fst memory) / GiB) @ '' GB'',
           ''- **Available RAM**: '' @ fmt_1f (of_nat (fst (snd memory)) / GiB) @ '' GB ('' @
              float_str s (snd (snd memory)) @ ''% used)''] @
          (if fst swap > 0
           then [''- **Swap**: '' @ fmt_1f (of_nat (fst swap) / GiB) @ '' GB ('' @
                   float_str s (snd swap) @ ''% used)'']
           else []) @
          get_gpu_info (host_system h) (host_run h) @
          battery_info s @
          [NL # ''- **Boot Time**: '' @ boot_time_text s,
           ''- **Uptime**: '' @ show_int days @ '' days, '' @ show_int (seconds div 3600) @ '' hours''])))))))))"

subsection \<open>Display collector\<close>

text \<open>
  The display collector reads the list of displays through the helper of the platform;
  each display is a dictionary from field name to text, in insertion order. The parsing
  inside the helpers is not modelled: the state gives what the helper returns or raises.
  The whole body of \<open>get_display_info\<close> is inside \<open>try ... except Exception\<close>.
\<close>

definition hdr_display :: string where
  "hdr_display = ''## '' @ [CHR 0xF0, CHR 0x9F, CHR 0x96, CHR 0xA5, CHR 0xEF, CHR 0xB8, CHR 0x8F] @
     '' Display Information''"

fun display_sections :: "nat \<Rightarrow> (string \<times> string) list list \<Rightarrow> string list" where
  "display_sections i [] = []"
| "display_sections i (display # rest) =
     (NL # ''### Display '' @ show_nat i) #
     map (\<lambda>kv. ''- **'' @ fst kv @ ''**: '' @ snd kv) display @
     display_sections (i + 1) rest"

definition get_display_info :: "string \<Rightarrow> (py_error + (string \<times> string) list list) \<Rightarrow> py_error + string list" where
  "get_display_info system displays_probe =
     Inr (hdr_display #
          (if system \<in> set [''Darwin'', ''Linux'', ''Windows''] then
             (case displays_probe of
                Inl e \<Rightarrow> [warning_sign @ '' **Display detection error**: '' @ exc_str e]
              | Inr displays \<Rightarrow>
                  if displays \<noteq> [] then display_sections 1 displays
                  else [''- **Status**: No displays detected''])
           else [''- **Status**: Display detection not supported on this platform'']))"

subsection \<open>Connected devices collector\<close>

text \<open>
  \<open>get_usb_devices\<close> and \<open>get_bluetooth_devices\<close> have their whole body inside
  \<open>try ... except Exception\<close> and return a list; the state gives the two lists.
\<close>

definition hdr_devices :: string where
  "hdr_devices = ''## '' @ [CHR 0xF0, CHR 0x9F, CHR 0x94, CHR 0x8C] @ '' Connected Devices''"

definition get_connectivity_devices :: "string list \<Rightarrow> string list \<Rightarrow> py_error + string list" where
  "get_connectivity_devices usb_info bt_info =
     Inr ([hdr_devices] @
          (if length usb_info > 1 then usb_info else []) @
          (if length bt_info > 1 then [''''] @ bt_info else []))"

subsection \<open>User and session collector\<close>

text \<open>
  The state of \<open>get_user_session_info\<close>: what \<open>getpass.getuser()\<close> returns or raises,
  the \<open>pw_gecos\<close> field that \<open>pwd.getpwnam\<close> gives for a user, and the formatted
  creation time of the current process (or the exception of that probe).
\<close>

record user_state =
  getuser :: "py_error + string"
  getpwnam_gecos :: "string \<Rightarrow> py_error + string"
  session_start :: "py_error + string"

definition hdr_user :: string where
  "hdr_user = NL # ''## '' @ [CHR 0xF0, CHR 0x9F, CHR 0x91, CHR 0xA4] @ '' User & Session''"

definition get_user_full_name :: "host \<Rightarrow> user_state \<Rightarrow> string \<Rightarrow> string" where
  "get_user_full_name h s username =
     (if host_system h = ''Darwin'' then
        (case safe_subprocess (host_run h) [''id'', ''-F'', username] 5 of
           Inl e \<Rightarrow> ''''
         | Inr out \<Rightarrow> if out \<noteq> [] \<and> strip out \<noteq> username then strip out else '''')
      else if host_system h = ''Linux'' then
        (case getpwnam_gecos s username of
           Inl e \<Rightarrow> ''''
         | Inr gecos \<Rightarrow> if gecos \<noteq> [] then hd (split_on CHR '','' gecos) else '''')
      else '''')"

definition get_user_session_info :: "host \<Rightarrow> user_state \<Rightarrow> py_error + string list" where
  "get_user_session_info h s =
     (case getuser s of
        Inl e \<Rightarrow> Inl e
      | Inr current_user \<Rightarrow>
          (let full_name = get_user_full_name h s current_user in
           Inr ([hdr_user, ''- **Current User**: '' @ current_user] @
                (if full_name \<noteq> [] then [''- **Full Name**: '' @ full_name] else []) @
                (case session_start s of
                   Inl e \<Rightarrow> []
                 | Inr t \<Rightarrow> [''- **Session Start**: '' @ t]))))"

subsection \<open>Report assembly\<close>

text \<open>The ambient state of the machine, collector by collector.\<close>

record system_state =
  the_host :: host
  hardware :: hardware_state
  displays_probe :: "py_error + (string \<times> string) list list"
  network :: net_state
  storage :: storage_state
  usb_info :: "string list"
  bt_info :: "string list"
  process_iter :: "py_error + proc_entry list"
  sockets :: ports_state
  user :: user_state
  clock :: time_state

text \<open>The ten collectors on a state, in the order of the full report.\<close>

definition collector_outputs :: "system_state \<Rightarrow> (py_error + string list) list" where
  "collector_outputs s =
     [get_system_identity (the_host s),
      get_hardware_info (the_host s) (hardware s),
      get_display_info (host_system (the_host s)) (displays_probe s),
      get_network_info (network s),
      get_storage_info (storage s),
      get_connectivity_devices (usb_info s) (bt_info s),
      get_running_processes (process_iter s),
      get_network_ports (sockets s),
      get_user_session_info (the_host s) (user s),
      get_time_locale_info (clock s)]"

text \<open>
  The statements inside the \<open>try\<close> of an assembler: each extends \<open>info_sections\<close> with
  the lines that a call returns; the first call that raises ends the block, and the
  lines collected so far stay.
\<close>

fun extend_all :: "string list \<Rightarrow> (py_error + string list) list \<Rightarrow> string list \<times> py_error option" where
  "extend_all info_sections [] = (info_sections, None)"
| "extend_all info_sections (Inr ls # rest) = extend_all (info_sections @ ls) rest"
| "extend_all info_sections (Inl e # rest) = (info_sections, Some e)"

definition generated_line :: "string \<Rightarrow> string" where
  "generated_line now = ''*Generated: '' @ now @ ''*'' @ [NL]"

text \<open>
  The operations with one \<open>try\<close> block around the collector calls and an error line of
  their own, such as \<open>get_hardware_details\<close> and \<open>get_network_status\<close>.
\<close>

definition tool_sections :: "string \<Rightarrow> string \<Rightarrow> string \<Rightarrow> (py_error + string list) list \<Rightarrow> string list" where
  "tool_sections title label now calls =
     (case extend_all [title, generated_line now] calls of
        (info_sections, None) \<Rightarrow> info_sections
      | (info_sections, Some e) \<Rightarrow>
          info_sections @ [warning_sign @ '' **'' @ label @ ''**: '' @ exc_str e])"

definition get_hardware_details :: "string \<Rightarrow> system_state \<Rightarrow> string" where
  "get_hardware_details now s =
     join [NL] (tool_sections ''# Hardware Details'' ''Hardware detection error'' now
                  [get_hardware_info (the_host s) (hardware s)])"

definition get_network_status :: "string \<Rightarrow> system_state \<Rightarrow> string" where
  "get_network_status now s =
     join [NL] (tool_sections ''# Network Status'' ''Network detection error'' now
                  [get_network_info (network s)])"

definition get_storage_analysis :: "string \<Rightarrow> system_state \<Rightarrow> string" where
  "get_storage_analysis now s =
     join [NL] (tool_sections ''# Storage Analysis'' ''Storage detection error'' now
                  [get_storage_info (storage s)])"

definition get_user_environment :: "string \<Rightarrow> system_state \<Rightarrow> string" where
  "get_user_environment now s =
     join [NL] (tool_sections ''# User Environment'' ''Environment detection error'' now
                  [get_user_session_info (the_host s) (user s), get_time_locale_info (clock s)])"

text \<open>
  The full report. In \<open>server.py\<close> the name \<open>get_display_info\<close> is bound, when the report
  runs, to the tool that the module itself defines under that name, not to the collector
  imported at the top of the file (the call to the process collector goes through a local
  import for this reason; the display call does not). What the statement
  \<open>info_sections.extend(get_display_info())\<close> does therefore depends on the object that
  the decorator \<open>mcp.tool\<close> of the FastMCP library returns, which is not part of the
  repository: it is the parameter \<open>display_step\<close>, the lines that the statement appends
  or the exception that it raises. The other nine calls are those of the collectors.
\<close>

definition full_report_calls :: "(py_error + string list) \<Rightarrow> system_state \<Rightarrow> (py_error + string list) list" where
  "full_report_calls display_step s = (collector_outputs s)[2 := display_step]"

definition report_footer :: "string list" where
  "report_footer = [NL # ''---'', ''*Complete system analysis finished*'']"

definition full_report_sections :: "string \<Rightarrow> (py_error + string list) list \<Rightarrow> string list" where
  "full_report_sections now calls =
     (case extend_all [''# Complete System Report'', generated_line now] calls of
        (info_sections, None) \<Rightarrow> info_sections @ report_footer
      | (info_sections, Some e) \<Rightarrow>
          info_sections @ [NL # warning_sign @ '' **Error collecting system info**: '' @ exc_str e] @
          report_footer)"

definition get_full_system_report :: "string \<Rightarrow> (py_error + string list) \<Rightarrow> system_state \<Rightarrow> string" where
  "get_full_system_report now display_step s =
     join [NL] (full_report_sections now (full_report_calls display_step s))"

text \<open>The first exception among the calls, and the lines of the calls before it.\<close>

definition returned :: "(py_error + 'a) \<Rightarrow> bool" where
  "returned c = (case c of Inl e \<Rightarrow> False | Inr x \<Rightarrow> True)"

definition first_error :: "(py_error + 'a) list \<Rightarrow> py_error option" where
  "first_error calls =
     (case dropWhile returned calls of [] \<Rightarrow> None | c # cs \<Rightarrow> Some (projl c))"

definition lines_before_error :: "(py_error + string list) list \<Rightarrow> string list" where
  "lines_before_error calls = concat (map projr (takeWhile returned calls))"

text \<open>
  A Linux machine on which every probe answers, and the same machine with a
  \<open>psutil.cpu_freq()\<close> that raises.
\<close>

definition linux_host :: host where
  "linux_host = \<lparr>host_system = ''Linux'', host_node = ''box'', host_release = ''6.1.0'',
     host_machine = ''x86_64'', host_processor = ''x86_64'', host_run = (\<lambda>cmd t. MissingBinary)\<rparr>"

definition healthy_hardware :: hardware_state where
  "healthy_hardware = \<lparr>
     cpu_count_physical = Inr (Some 4), cpu_count_logical = Inr (Some 8),
     cpu_freq = Inr (Some (2400, 3600)), cpu_percent_probe = Inr (25 / 2),
     virtual_memory = Inr (17179869184, 8589934592, 50), swap_memory = Inr (0, 0),
     boot_time = Inr 1000000, clock_now = 1090000, float_str = fmt_1f,
     boot_time_text = ''2024-12-31 11:00:00'', battery_info = []\<rparr>"

definition broken_hardware :: hardware_state where
  "broken_hardware =
     healthy_hardware\<lparr>cpu_freq := Inl (FileNotFoundError, ''[Errno 2] No such file or directory'')\<rparr>"

definition alice :: user_state where
  "alice = \<lparr>getuser = Inr ''alice'', getpwnam_gecos = (\<lambda>u. Inr ''Alice Example,,,''),
     session_start = Inr ''2025-01-01 09:00:00''\<rparr>"

definition healthy_system :: system_state where
  "healthy_system = \<lparr>the_host = linux_host, hardware = healthy_hardware, displays_probe = Inr [],
     network = laptop_net, storage = one_disk, usb_info = [], bt_info = [],
     process_iter = Inr two_idle, sockets = server_sockets, user = alice, clock = india_time\<rparr>"

definition broken_system :: system_state where
  "broken_system = healthy_system\<lparr>hardware := broken_hardware\<rparr>"

definition not_callable :: "py_error + string list" where
  "not_callable = Inl (TypeError, '''FunctionTool' object is not callable'')"

definition linux_identity :: "string list" where
  "linux_identity = [hdr_identity, ''- **Hostname**: box'', ''- **Platform**: Linux 6.1.0'',
     ''- **Architecture**: x86_64'', ''- **Processor**: x86_64'']"

section \<open>Properties\<close>

lemma translate_newlines_id:
  "CR \<notin> set s \<Longrightarrow> translate_newlines s = s"
  by (induction s rule: translate_newlines.induct) auto

lemma translate_newlines_no_CR:
  "CR \<notin> set (translate_newlines s)"
  by (induction s rule: translate_newlines.induct) (auto simp: CR_def NL_def)

lemma safe_subprocess_plain:
  "run cmd t = Exited 0 out \<Longrightarrow> CR \<notin> set out \<Longrightarrow> safe_subprocess run cmd t = Inr out"
  by (simp add: safe_subprocess_def check_output_def translate_newlines_id)



text \<open>
  A command that ends with a status other than zero and whose output does not decode:
  the helper raises.
\<close>

theorem safe_subprocess_undecodable_raises:
  "safe_subprocess (\<lambda>c t. Undecodable 1) [''lsusb''] 5 = Inl (UnicodeDecodeError, ''codec can't decode byte'') \<and>
   safe_subprocess (\<lambda>c t. Undecodable 0) [''lsusb''] 5 = Inl (UnicodeDecodeError, ''codec can't decode byte'')"
  by (simp add: safe_subprocess_def check_output_def)

subsection \<open>Decimal digits\<close>

lemma digit_char_digit: "digit_char d \<in> set ''0123456789''"
  unfolding digit_char_def by (rule nth_mem) simp

lemma show_nat_digits: "set (show_nat n) \<subseteq> set ''0123456789''"
proof (induction n rule: show_nat.induct)
  case (1 n)
  show ?case
  proof (cases "n < 10")
    case True
    then show ?thesis using digit_char_digit [of n] by (subst show_nat.simps) simp
  next
    case False
    then show ?thesis
      using 1 digit_char_digit [of "n mod 10"] by (subst show_nat.simps) auto
  qed
qed


lemma show_nat_length_lt100: "n < 100 \<Longrightarrow> length (show_nat n) \<le> 2"
proof -
  assume a: "n < 100"
  show ?thesis
  proof (cases "n < 10")
    case True
    then show ?thesis by (subst show_nat.simps) simp
  next
    case False
    have "n div 10 < 10" using a by simp
    then have "show_nat (n div 10) = [digit_char (n div 10)]" by (subst show_nat.simps) simp
    then show ?thesis using False by (subst show_nat.simps) simp
  qed
qed

lemma zero_pad2_digits: "set (zero_pad2 n) \<subseteq> set ''0123456789''"
  using show_nat_digits [of n] by (auto simp: zero_pad2_def)

lemma zero_pad2_length: "2 \<le> length (zero_pad2 n)"
  by (simp add: zero_pad2_def)

lemma zero_pad2_length_lt100: "n < 100 \<Longrightarrow> length (zero_pad2 n) = 2"
  using show_nat_length_lt100 [of n] by (simp add: zero_pad2_def)

subsection \<open>Time and locale\<close>

text \<open>
  C9: the time and locale collector always emits the UTC offset line, the line is
  \<open>UTC\<close>, a sign, the hours in at least two digits (exactly two when the offset is at most a day) and
  \<open>:00\<close>; the hours are the offset floor-divided by 3600 seconds, so the minutes of an
  offset such as +05:30 (19800 seconds east) are dropped and the line reads
  \<open>UTC+05:00\<close>.
\<close>

theorem utc_offset_whole_hours:
  "\<exists>lines sign hh.
     get_time_locale_info s = Inr lines \<and>
     (''- **UTC Offset**: UTC'' @ [sign] @ hh @ '':00'') \<in> set lines \<and>
     sign = (if (- utc_offset s) div 3600 \<ge> 0 then CHR ''+'' else CHR ''-'') \<and>
     hh = zero_pad2 (nat \<bar>(- utc_offset s) div 3600\<bar>) \<and>
     set hh \<subseteq> set ''0123456789'' \<and> 2 \<le> length hh \<and>
     (\<bar>utc_offset s\<bar> \<le> 86400 \<longrightarrow> length hh = 2) \<and>
     (utc_offset s = - 19800 \<longrightarrow>
        ''- **UTC Offset**: UTC'' @ [sign] @ hh @ '':00'' = ''- **UTC Offset**: UTC+05:00'')"
proof -
  let ?h = "(- utc_offset s) div 3600"
  let ?hh = "zero_pad2 (nat \<bar>?h\<bar>)"
  have in_lines: "utc_offset_line s \<in> set (timezone_lines s)"
    by (simp add: timezone_lines_def)
  have small: "\<bar>utc_offset s\<bar> \<le> 86400 \<longrightarrow> length ?hh = 2"
  proof
    assume a: "\<bar>utc_offset s\<bar> \<le> 86400"
    then have "- 24 \<le> ?h \<and> ?h \<le> 24" by linarith
    then have "nat \<bar>?h\<bar> < 100" by linarith
    then show "length ?hh = 2" by (rule zero_pad2_length_lt100)
  qed
  have ex: "utc_offset s = - 19800 \<longrightarrow> ?hh = ''05''"
    by (simp add: zero_pad2_def show_nat.simps digit_char_def)
  show ?thesis
    using in_lines small ex zero_pad2_digits [of "nat \<bar>?h\<bar>"] zero_pad2_length [of "nat \<bar>?h\<bar>"]
    by (simp add: get_time_locale_info_def utc_offset_line_def offset_sign_def offset_hours_def)
qed

theorem utc_offset_whole_hours_witness:
  "get_time_locale_info india_time =
     Inr [hdr_time, ''- **Current Time**: 2025-01-01 12:00:00'', ''- **Timezone**: IST'',
          ''- **UTC Offset**: UTC+05:00'', ''- **System Language**: en_IN'', ''- **Encoding**: UTF-8'']
   \<and> \<bar>utc_offset india_time\<bar> \<le> 86400 \<and> utc_offset india_time = - 19800 \<and>
   (\<exists>lines. get_time_locale_info india_time = Inr lines \<and> ''- **UTC Offset**: UTC+05:00'' \<in> set lines)"
proof -
  have u: "utc_offset india_time = - 19800"
    by (simp add: utc_offset_def india_time_def)
  have g: "get_time_locale_info india_time =
     Inr [hdr_time, ''- **Current Time**: 2025-01-01 12:00:00'', ''- **Timezone**: IST'',
          ''- **UTC Offset**: UTC+05:00'', ''- **System Language**: en_IN'', ''- **Encoding**: UTF-8'']"
    by (simp add: get_time_locale_info_def timezone_lines_def locale_lines_def utc_offset_line_def
        offset_sign_def offset_hours_def utc_offset_def india_time_def truthy_str_def zero_pad2_def
        show_nat.simps digit_char_def)
  from utc_offset_whole_hours [of india_time] u
  have "\<exists>lines. get_time_locale_info india_time = Inr lines \<and> ''- **UTC Offset**: UTC+05:00'' \<in> set lines"
    by auto
  with u g show ?thesis by simp
qed

subsection \<open>GPU entries\<close>

lemma gpu_linux_line_length: "length (gpu_linux_line g) \<le> 1"
  by (simp add: gpu_linux_line_def Let_def)

lemma concat_gpu_linux_length: "length (concat (map gpu_linux_line gs)) \<le> length gs"
proof (induction gs)
  case Nil
  show ?case by simp
next
  case (Cons g gs)
  then show ?case using gpu_linux_line_length [of g] by simp
qed

lemma gpu_entries_length: "length (gpu_entries ls) \<le> length ls"
  by (simp add: gpu_entries_def)

lemma gpu_entries_linux_bound: "length (gpu_entries (get_gpu_info ''Linux'' run)) \<le> 3"
proof -
  have hdr: "gpu_entries (hdr_gpu # ls) = gpu_entries ls" for ls
    by (simp add: gpu_entries_def hdr_gpu_def startswith_def NL_def)
  have cap: "length (gpu_entries (concat (map gpu_linux_line (take 3 gs)))) \<le> 3" for gs
  proof -
    have "length (gpu_entries (concat (map gpu_linux_line (take 3 gs))))
            \<le> length (concat (map gpu_linux_line (take 3 gs)))"
      by (rule gpu_entries_length)
    also have "\<dots> \<le> length (take 3 gs)" by (rule concat_gpu_linux_length)
    also have "\<dots> \<le> 3" by simp
    finally show ?thesis .
  qed
  have empty: "length (gpu_entries []) \<le> 3" by (simp add: gpu_entries_def)
  show ?thesis
    using cap empty
    by (simp add: get_gpu_info_def hdr Let_def split: sum.splits)
qed

text \<open>
  C8: the GPU sub-collector emits at most 3 GPU entries. The Linux branch takes the first
  three matching lines (\<open>gpu_entries_linux_bound\<close>); the macOS branch has no such cap,
  and on the output of a machine with four GPUs it emits four entries.
\<close>

theorem gpu_info_darwin_four_entries:
  "gpu_entries (get_gpu_info ''Darwin'' (\<lambda>cmd t. Exited 0 four_gpu_profile)) =
     [''- **GPU**: AMD Radeon Pro Vega II'', ''- **GPU**: AMD Radeon Pro Vega II'',
      ''- **GPU**: AMD Radeon Pro W6800X'', ''- **GPU**: AMD Radeon Pro W6800X'']"
proof -
  have "CR \<notin> set four_gpu_profile"
    by (simp add: four_gpu_profile_def CR_def NL_def)
  then have "safe_subprocess (\<lambda>cmd t. Exited 0 four_gpu_profile)
      [''system_profiler'', ''SPDisplaysDataType''] 5 = Inr four_gpu_profile"
    by (intro safe_subprocess_plain) simp_all
  moreover have "four_gpu_profile \<noteq> []"
    by (simp add: four_gpu_profile_def)
  ultimately have "get_gpu_info ''Darwin'' (\<lambda>cmd t. Exited 0 four_gpu_profile) =
      hdr_gpu # concat (map gpu_darwin_line (split_on NL four_gpu_profile))"
    by (simp add: get_gpu_info_def)
  then show ?thesis
    by (simp add: four_gpu_profile_def
        gpu_darwin_line_def gpu_entries_def hdr_gpu_def NL_def strip_def is_space_def
        startswith_def after_last_def Let_def)
qed

subsection \<open>Network collector\<close>



















lemma laptop_net_report: "get_network_info laptop_net = Inr laptop_report"
  by (simp add: get_network_info_def laptop_net_def laptop_ifs_def laptop_stats_def
      laptop_report_def interface_header_def interface_lines_def is_up_def addr_lines_def
      startswith_def truthy_str_def network_tail_def get_default_gateway_def safe_subprocess_def
      check_output_def split_ws_def is_space_def Let_def get_dns_servers_def get_external_ip_def
      vpn_name_match_def lower_def lower_char_def join_comma_def NL_def CR_def)



text \<open>
  C7: when the external lookup times out, cannot connect, raises anything else or answers
  with a status other than 200, the helper returns \<open>Unable to determine\<close> and raises
  nothing; every output of the network collector then has the External IP line with that
  text, and the collector returns such an output whenever its two interface tables are
  read.
\<close>

theorem external_ip_fallback:
  assumes "lookup_failed (http_get s)"
  shows "get_external_ip s = ''Unable to determine'' \<and>
     (\<forall>lines. get_network_info s = Inr lines \<longrightarrow>
        ''- **External IP**: Unable to determine'' \<in> set lines) \<and>
     (\<forall>ifs st. net_if_addrs s = Inr ifs \<and> net_if_stats s = Inr st \<longrightarrow>
        (\<exists>pre vpn. get_network_info s =
           Inr (pre @ [''- **External IP**: Unable to determine'', vpn])))"
proof -
  have ip: "get_external_ip s = ''Unable to determine''"
    using assms by (cases "http_get s") (simp_all add: get_external_ip_def lookup_failed_def)
  have tail: "\<exists>pre vpn. network_tail s ifs st = pre @ [''- **External IP**: Unable to determine'', vpn]"
    for ifs st
  proof -
    let ?g = "get_default_gateway s" and ?d = "get_dns_servers s"
    let ?pre = "(if ?g \<noteq> [] then [NL # ''- **Default Gateway**: '' @ ?g] else []) @
      (if ?d \<noteq> [] then [''- **DNS Servers**: '' @ join_comma (take 3 ?d)] else [])"
    have "network_tail s ifs st = ?pre @ [''- **External IP**: Unable to determine'',
        ''- **VPN Status**: '' @ detect_vpn (map fst ifs) st]"
      by (simp add: network_tail_def Let_def ip)
    then show ?thesis by blast
  qed
  have shape: "\<exists>pre vpn. get_network_info s =
           Inr (pre @ [''- **External IP**: Unable to determine'', vpn])"
    if a: "net_if_addrs s = Inr ifs" and b: "net_if_stats s = Inr st" for ifs st
  proof -
    from tail obtain pre vpn where
      t: "network_tail s ifs st = pre @ [''- **External IP**: Unable to determine'', vpn]"
      by blast
    have "get_network_info s = Inr ((hdr_network # concat (map (interface_lines st) ifs) @ pre) @
            [''- **External IP**: Unable to determine'', vpn])"
      using a b t by (simp add: get_network_info_def)
    then show ?thesis by blast
  qed
  have mem: "''- **External IP**: Unable to determine'' \<in> set lines"
    if g: "get_network_info s = Inr lines" for lines
  proof -
    from g obtain ifs st where a: "net_if_addrs s = Inr ifs" and b: "net_if_stats s = Inr st"
      by (auto simp: get_network_info_def split: sum.splits)
    from shape [OF a b] g show ?thesis by auto
  qed
  from ip shape mem show ?thesis by blast
qed

theorem external_ip_fallback_witness:
  "lookup_failed (http_get laptop_net) \<and>
   lookup_failed (http_get (laptop_net\<lparr>http_get := Response 503 ''Service Unavailable''\<rparr>)) \<and>
   lookup_failed (http_get (laptop_net\<lparr>http_get := HttpConnectionFailed\<rparr>)) \<and>
   get_external_ip laptop_net = ''Unable to determine'' \<and>
   get_external_ip (laptop_net\<lparr>http_get := Response 503 ''Service Unavailable''\<rparr>) = ''Unable to determine'' \<and>
   get_external_ip (laptop_net\<lparr>http_get := HttpConnectionFailed\<rparr>) = ''Unable to determine'' \<and>
   get_network_info laptop_net = Inr laptop_report \<and>
   ''- **External IP**: Unable to determine'' \<in> set laptop_report"
proof -
  have f1: "lookup_failed (http_get laptop_net)"
    by (simp add: lookup_failed_def laptop_net_def)
  have f2: "lookup_failed (http_get (laptop_net\<lparr>http_get := Response 503 ''Service Unavailable''\<rparr>))"
    by (simp add: lookup_failed_def)
  have f3: "lookup_failed (http_get (laptop_net\<lparr>http_get := HttpConnectionFailed\<rparr>))"
    by (simp add: lookup_failed_def)
  show ?thesis
    using f1 f2 f3 external_ip_fallback [OF f1] external_ip_fallback [OF f2]
      external_ip_fallback [OF f3] laptop_net_report
    by simp
qed

subsection \<open>Rounding to one decimal\<close>

lemma floor_rat_div_numeral:
  "\<lfloor>(numeral a :: rat) / numeral b\<rfloor> = numeral a div numeral b"
  using floor_divide_of_int_eq [of "numeral a" "numeral b", where ?'a = rat] by simp







subsection \<open>Storage collector\<close>





subsection \<open>Process collector\<close>












subsection \<open>Port collector\<close>


















text \<open>
  The owner of a socket is resolved whenever every exception of the three lookups
  (\<open>psutil.Process(pid)\<close>, \<open>name()\<close>, \<open>exe()\<close>) is one that the clauses of the code
  catch: \<open>NoSuchProcess\<close>, \<open>ZombieProcess\<close>, \<open>AccessDenied\<close> or an \<open>OSError\<close>.
\<close>

lemma resolve_process_returns:
  assumes "\<forall>e. procs p = Inl e \<longrightarrow> caught_by_lookup e"
    and "\<forall>h e. procs p = Inr h \<and> (proc_name h = Inl e \<or> proc_exe h = Inl e) \<longrightarrow> caught_by_lookup e"
  shows "\<exists>r. resolve_process procs (Some p) = Inr r"
proof (cases "procs p")
  case (Inl e)
  with assms(1) have "caught_by_lookup e" by blast
  with Inl show ?thesis by (simp add: resolve_process_def)
next
  case h: (Inr h)
  show ?thesis
  proof (cases "proc_name h")
    case (Inl e)
    with assms(2) h have "caught_by_lookup e" by blast
    with h Inl show ?thesis by (simp add: resolve_process_def)
  next
    case n: (Inr nm)
    show ?thesis
    proof (cases "proc_exe h")
      case (Inl e)
      with assms(2) h have "caught_by_lookup e" by blast
      with h n Inl show ?thesis by (simp add: resolve_process_def)
    next
      case (Inr x)
      with h n show ?thesis by (simp add: resolve_process_def)
    qed
  qed
qed

text \<open>
  The entries of the table of the current process have no pid: the round of each of them
  ends in the \<open>except\<close> clause of the loop, and nothing is collected from that table.
\<close>

lemma scan_own_connections:
  "scan_connections procs (map Pconn cs) acc = acc"
proof (induction cs)
  case Nil
  show ?case by simp
next
  case (Cons c cs)
  have "scan_step procs (Pconn c) acc = acc"
    by (simp add: scan_step_def Let_def)
  with Cons show ?case by simp
qed


lemma listening_pairs_image:
  "listening_pairs conns = (\<lambda>c. the (laddr c)) ` set (filter is_listening conns)"
  by (auto simp: listening_pairs_def)



text \<open>
  One listening socket whose owner lookup raises an exception that no inner clause
  catches: the socket table has one (bind address, port) pair and the output has no row
  for it.
\<close>

theorem listening_row_lost_on_lookup_error:
  "connections_of failing_sockets = Inr [Sconn web_socket] \<and>
   is_listening (Sconn web_socket) \<and>
   listening_pairs [Sconn web_socket] = {(''0.0.0.0'', 8080)} \<and>
   get_network_ports failing_sockets =
     Inr [hdr_ports, NL # ''**Summary**: 0 listening ports, 0 active connections'']"
proof -
  have a: "connections_of failing_sockets = Inr [Sconn web_socket]"
    by (simp add: connections_of_def failing_sockets_def)
  have b: "is_listening (Sconn web_socket)"
    by (simp add: is_listening_def web_socket_def)
  have c: "listening_pairs [Sconn web_socket] = {(''0.0.0.0'', 8080)}"
    by (auto simp: listening_pairs_image is_listening_def web_socket_def)
  have d: "scan_connections (process_of failing_sockets) [Sconn web_socket] ([], []) = ([], [])"
    by (simp add: failing_sockets_def scan_step_def is_listening_def web_socket_def
        resolve_process_def failing_lookup_def caught_by_lookup_def is_OSError_def Let_def)
  have e: "get_network_ports failing_sockets =
     Inr [hdr_ports, NL # ''**Summary**: 0 listening ports, 0 active connections'']"
    using a d by (simp add: get_network_ports_def ports_report_def listening_lines_def
        established_lines_def ports_summary_def show_nat.simps digit_char_def)
  from a b c e show ?thesis by blast
qed

subsection \<open>Which collectors can raise\<close>

lemma bind_result_returned:
  "returned (bind_result r f) = (returned r \<and> returned (f (projr r)))"
  by (cases r) (simp_all add: bind_result_def returned_def)

lemma hardware_returned:
  "returned (get_hardware_info h s) =
     (returned (cpu_count_physical s) \<and> returned (cpu_count_logical s) \<and> returned (cpu_freq s) \<and>
      returned (cpu_percent_probe s) \<and> returned (virtual_memory s) \<and> returned (swap_memory s) \<and>
      returned (boot_time s))"
proof -
  have r: "returned (Inr x :: py_error + string list)" for x by (simp add: returned_def)
  show ?thesis
    unfolding get_hardware_info_def bind_result_returned Let_def by (simp add: r)
qed

lemma network_returned:
  "returned (get_network_info s) = (returned (net_if_addrs s) \<and> returned (net_if_stats s))"
  by (cases "net_if_addrs s"; cases "net_if_stats s") (simp_all add: get_network_info_def returned_def)

lemma user_returned: "returned (get_user_session_info h s) = returned (getuser s)"
  by (cases "getuser s") (simp_all add: get_user_session_info_def returned_def Let_def)

lemma identity_returned:
  "returned (get_system_identity h) =
     (host_system h = ''Darwin'' \<longrightarrow>
        returned (safe_subprocess (host_run h) [''system_profiler'', ''SPHardwareDataType''] 5))"
  by (cases "safe_subprocess (host_run h) [''system_profiler'', ''SPHardwareDataType''] 5")
     (simp_all add: get_system_identity_def returned_def Let_def)

lemma storage_loop_returned:
  assumes "\<forall>p \<in> set ps. (\<forall>u. disk_usage s (mountpoint p) = Inr u \<longrightarrow> total_bytes u \<noteq> 0) \<and>
             (\<forall>e. disk_usage s (mountpoint p) = Inl e \<longrightarrow> is_OSError e)"
  shows "returned (storage_loop s ps)"
  using assms
proof (induction ps)
  case Nil
  show ?case by (simp add: returned_def)
next
  case (Cons p ps)
  then have rest: "returned (storage_loop s ps)" by simp
  from Cons.prems have "returned (partition_lines s p)"
    by (cases "disk_usage s (mountpoint p)") (auto simp: partition_lines_def returned_def)
  with rest show ?case by (auto simp: returned_def split: sum.splits)
qed

lemma storage_returned:
  assumes "disk_partitions s = Inr ps"
    and "\<forall>p \<in> set ps. (\<forall>u. disk_usage s (mountpoint p) = Inr u \<longrightarrow> total_bytes u \<noteq> 0) \<and>
             (\<forall>e. disk_usage s (mountpoint p) = Inl e \<longrightarrow> is_OSError e)"
  shows "returned (get_storage_info s)"
  using assms(1) storage_loop_returned [OF assms(2)]
  by (auto simp: get_storage_info_def returned_def split: sum.splits)

lemma always_returned:
  "returned (get_display_info sys d)" "returned (get_connectivity_devices u b)"
  "returned (get_running_processes it)" "returned (get_network_ports st)"
  "returned (get_time_locale_info t)"
  by (simp_all add: get_display_info_def get_connectivity_devices_def get_running_processes_def
      get_network_ports_def get_time_locale_info_def returned_def)

lemma tool_sections_single:
  "tool_sections title label now [c] =
     [title, generated_line now] @
     (case c of Inr ls \<Rightarrow> ls | Inl e \<Rightarrow> [warning_sign @ '' **'' @ label @ ''**: '' @ exc_str e])"
  by (cases c) (simp_all add: tool_sections_def)

text \<open>
  C2, as the code has it. The display, connected-devices, process, port and time and
  locale collectors return a list of lines in every state. The hardware collector returns
  one exactly when its seven \<open>psutil\<close> calls return, the network collector exactly when
  its two interface tables are read, the user and session collector exactly when
  \<open>getpass.getuser\<close> returns, the identity collector unless, on macOS, the command helper
  raises; the storage collector returns one when the partition list is read, every usage
  call that fails fails with an \<open>OSError\<close>, and no usage has a total of zero. An exception
  that leaves a collector is caught by the operation that called it, which appends one
  inline error line to the title and the timestamp.
\<close>

theorem collectors_return_or_propagate:
  "returned (get_display_info (host_system (the_host s)) (displays_probe s)) \<and>
   returned (get_connectivity_devices (usb_info s) (bt_info s)) \<and>
   returned (get_running_processes (process_iter s)) \<and>
   returned (get_network_ports (sockets s)) \<and>
   returned (get_time_locale_info (clock s)) \<and>
   (returned (get_hardware_info (the_host s) (hardware s)) \<longleftrightarrow>
      returned (cpu_count_physical (hardware s)) \<and> returned (cpu_count_logical (hardware s)) \<and>
      returned (cpu_freq (hardware s)) \<and> returned (cpu_percent_probe (hardware s)) \<and>
      returned (virtual_memory (hardware s)) \<and> returned (swap_memory (hardware s)) \<and>
      returned (boot_time (hardware s))) \<and>
   (returned (get_network_info (network s)) \<longleftrightarrow>
      returned (net_if_addrs (network s)) \<and> returned (net_if_stats (network s))) \<and>
   (returned (get_user_session_info (the_host s) (user s)) \<longleftrightarrow> returned (getuser (user s))) \<and>
   (returned (get_system_identity (the_host s)) \<longleftrightarrow>
      (host_system (the_host s) = ''Darwin'' \<longrightarrow>
         returned (safe_subprocess (host_run (the_host s))
                     [''system_profiler'', ''SPHardwareDataType''] 5))) \<and>
   (\<forall>ps. disk_partitions (storage s) = Inr ps \<and>
      (\<forall>p \<in> set ps.
         (\<forall>u. disk_usage (storage s) (mountpoint p) = Inr u \<longrightarrow> total_bytes u \<noteq> 0) \<and>
         (\<forall>e. disk_usage (storage s) (mountpoint p) = Inl e \<longrightarrow> is_OSError e)) \<longrightarrow>
      returned (get_storage_info (storage s))) \<and>
   (\<forall>title label now c. tool_sections title label now [c] =
      [title, generated_line now] @
      (case c of Inr ls \<Rightarrow> ls | Inl e \<Rightarrow> [warning_sign @ '' **'' @ label @ ''**: '' @ exc_str e]))"
proof -
  have st: "\<forall>ps. disk_partitions (storage s) = Inr ps \<and>
      (\<forall>p \<in> set ps.
         (\<forall>u. disk_usage (storage s) (mountpoint p) = Inr u \<longrightarrow> total_bytes u \<noteq> 0) \<and>
         (\<forall>e. disk_usage (storage s) (mountpoint p) = Inl e \<longrightarrow> is_OSError e)) \<longrightarrow>
      returned (get_storage_info (storage s))"
    using storage_returned [of "storage s"] by blast
  show ?thesis
    by (simp only: always_returned hardware_returned network_returned user_returned
        identity_returned tool_sections_single simp_thms) (rule st)
qed

lemma healthy_hardware_texts:
  "fmt_0f 2400 = ''2400''" "fmt_0f 3600 = ''3600''" "fmt_1f (25 / 2) = ''12.5''"
  "fmt_1f 16 = ''16.0''" "fmt_1f 8 = ''8.0''" "fmt_1f 50 = ''50.0''"
  "show_int 1 = ''1''" "show_count (Some 4) = ''4''" "show_count (Some 8) = ''8''"
  "get_gpu_info ''Linux'' (\<lambda>cmd t. MissingBinary) = []"
  by (simp_all add: fmt_0f_def fmt_1f_def tenths_def round_half_even_def show_int_def
      show_count_def show_nat.simps digit_char_def get_gpu_info_def safe_subprocess_def
      check_output_def)

lemma healthy_hardware_lines:
  "get_hardware_info linux_host healthy_hardware =
     Inr [hdr_hardware, ''- **CPU Cores**: 4 physical, 8 logical'',
          ''- **CPU Frequency**: 2400 MHz (max: 3600 MHz)'', ''- **CPU Usage**: 12.5%'',
          ''- **Total RAM**: 16.0 GB'', ''- **Available RAM**: 8.0 GB (50.0% used)'',
          NL # ''- **Boot Time**: 2024-12-31 11:00:00'', ''- **Uptime**: 1 days, 1 hours'']"
  unfolding get_hardware_info_def bind_result_def healthy_hardware_def linux_host_def Let_def
  by (simp add: GiB_def floor_rat_div_numeral healthy_hardware_texts)

theorem hardware_collector_raises:
  "get_hardware_info (the_host broken_system) (hardware broken_system) =
     Inl (FileNotFoundError, ''[Errno 2] No such file or directory'')"
  by (simp add: get_hardware_info_def bind_result_def broken_system_def healthy_system_def
      broken_hardware_def healthy_hardware_def)

lemma healthy_probes:
  "returned (cpu_count_physical healthy_hardware)" "returned (cpu_count_logical healthy_hardware)"
  "returned (cpu_freq healthy_hardware)" "returned (cpu_percent_probe healthy_hardware)"
  "returned (virtual_memory healthy_hardware)" "returned (swap_memory healthy_hardware)"
  "returned (boot_time healthy_hardware)" "returned (net_if_addrs laptop_net)"
  "returned (net_if_stats laptop_net)" "returned (getuser alice)" "host_system linux_host \<noteq> ''Darwin''"
  by (simp_all add: healthy_hardware_def laptop_net_def alice_def linux_host_def returned_def)

lemma one_disk_usable:
  "disk_partitions one_disk = Inr [root_partition] \<and>
   (\<forall>p \<in> set [root_partition].
      (\<forall>u. disk_usage one_disk (mountpoint p) = Inr u \<longrightarrow> total_bytes u \<noteq> 0) \<and>
      (\<forall>e. disk_usage one_disk (mountpoint p) = Inl e \<longrightarrow> is_OSError e))"
  by (simp add: one_disk_def root_usage_def)

lemma healthy_fields:
  "the_host healthy_system = linux_host" "hardware healthy_system = healthy_hardware"
  "network healthy_system = laptop_net" "storage healthy_system = one_disk"
  "user healthy_system = alice" "the_host broken_system = linux_host"
  "hardware broken_system = broken_hardware"
  by (simp_all add: healthy_system_def broken_system_def)

theorem collectors_return_or_propagate_witness:
  "returned (get_system_identity linux_host) \<and>
   returned (get_hardware_info linux_host healthy_hardware) \<and>
   returned (get_network_info laptop_net) \<and>
   returned (get_storage_info one_disk) \<and>
   returned (get_user_session_info linux_host alice) \<and>
   \<not> returned (cpu_freq broken_hardware) \<and>
   \<not> returned (get_hardware_info linux_host broken_hardware) \<and>
   tool_sections ''# Hardware Details'' ''Hardware detection error'' ''2025-01-01 12:00:00''
       [get_hardware_info linux_host broken_hardware] =
     [''# Hardware Details'', generated_line ''2025-01-01 12:00:00'',
      warning_sign @ '' **Hardware detection error**: [Errno 2] No such file or directory'']"
proof -
  note h = collectors_return_or_propagate [of healthy_system, unfolded healthy_fields]
  note b = collectors_return_or_propagate [of broken_system, unfolded healthy_fields]
  have nf: "\<not> returned (cpu_freq broken_hardware)"
    by (simp add: broken_hardware_def returned_def)
  have raised: "get_hardware_info linux_host broken_hardware =
      Inl (FileNotFoundError, ''[Errno 2] No such file or directory'')"
    by (simp add: get_hardware_info_def bind_result_def broken_hardware_def healthy_hardware_def)
  from h healthy_probes have c1: "returned (get_system_identity linux_host)" by blast
  from h healthy_probes have c2: "returned (get_hardware_info linux_host healthy_hardware)" by blast
  from h healthy_probes have c3: "returned (get_network_info laptop_net)" by blast
  from h one_disk_usable have c4: "returned (get_storage_info one_disk)" by blast
  from h healthy_probes have c5: "returned (get_user_session_info linux_host alice)" by blast
  from b nf have c6: "\<not> returned (get_hardware_info linux_host broken_hardware)" by blast
  from b have "tool_sections ''# Hardware Details'' ''Hardware detection error'' ''2025-01-01 12:00:00''
       [get_hardware_info linux_host broken_hardware] =
     [''# Hardware Details'', generated_line ''2025-01-01 12:00:00''] @
      (case get_hardware_info linux_host broken_hardware of Inr ls \<Rightarrow> ls
       | Inl e \<Rightarrow> [warning_sign @ '' **'' @ ''Hardware detection error'' @ ''**: '' @ exc_str e])"
    by blast
  then have c7: "tool_sections ''# Hardware Details'' ''Hardware detection error'' ''2025-01-01 12:00:00''
       [get_hardware_info linux_host broken_hardware] =
     [''# Hardware Details'', generated_line ''2025-01-01 12:00:00'',
      warning_sign @ '' **Hardware detection error**: [Errno 2] No such file or directory'']"
    by (simp add: raised exc_str_def)
  from c1 c2 c3 c4 c5 nf c6 c7 show ?thesis by blast
qed

subsection \<open>The full report\<close>

lemma extend_all_eq:
  "extend_all acc calls = (acc @ lines_before_error calls, first_error calls)"
proof (induction acc calls rule: extend_all.induct)
  case (1 info_sections)
  show ?case by (simp add: lines_before_error_def first_error_def returned_def)
next
  case (2 info_sections ls rest)
  then show ?case by (simp add: lines_before_error_def first_error_def returned_def)
next
  case (3 info_sections e rest)
  show ?case by (simp add: lines_before_error_def first_error_def returned_def)
qed

lemma full_report_sections_eq:
  "full_report_sections now calls =
     [''# Complete System Report'', generated_line now] @ lines_before_error calls @
     (case first_error calls of
        None \<Rightarrow> []
      | Some e \<Rightarrow> [NL # warning_sign @ '' **Error collecting system info**: '' @ exc_str e]) @
     report_footer"
  by (simp add: full_report_sections_def extend_all_eq split: option.splits)

lemma all_returned:
  assumes "\<forall>c \<in> set calls. returned c"
  shows "first_error calls = None \<and> lines_before_error calls = concat (map projr calls)"
proof -
  from assms have tk: "takeWhile returned calls = calls" and dk: "dropWhile returned calls = []"
    by simp_all
  show ?thesis unfolding first_error_def lines_before_error_def tk dk by simp
qed

lemma first_failure:
  assumes "k < length calls" and "\<not> returned (calls ! k)" and "\<forall>j < k. returned (calls ! j)"
  shows "first_error calls = Some (projl (calls ! k)) \<and>
         lines_before_error calls = concat (map projr (take k calls))"
proof -
  have t: "takeWhile returned calls = take k calls"
    using assms by (intro takeWhile_eq_take_P_nth) simp_all
  then have "length (takeWhile returned calls) = k" using assms(1) by simp
  then have "dropWhile returned calls = drop k calls" by (simp add: dropWhile_eq_drop)
  also have "\<dots> = calls ! k # drop (Suc k) calls"
    using assms(1) by (simp add: Cons_nth_drop_Suc)
  finally have d: "dropWhile returned calls = calls ! k # drop (Suc k) calls" .
  show ?thesis unfolding first_error_def lines_before_error_def t d by simp
qed

lemma full_report_calls_list:
  "full_report_calls d s =
     [get_system_identity (the_host s),
      get_hardware_info (the_host s) (hardware s),
      d,
      get_network_info (network s),
      get_storage_info (storage s),
      get_connectivity_devices (usb_info s) (bt_info s),
      get_running_processes (process_iter s),
      get_network_ports (sockets s),
      get_user_session_info (the_host s) (user s),
      get_time_locale_info (clock s)]"
  by (simp add: full_report_calls_def collector_outputs_def)

text \<open>
  C1, as the code has it: the full report is the title and the timestamp line, the lines
  of the calls made in the fixed order identity, hardware, display step, network, storage,
  connected devices, processes, ports, user and session, time and locale, up to the first
  call that raises, then one error line if a call raised, then the two footer lines, joined
  by newlines. When every call returns, the lines of all ten are there, in order; when the
  call at position k is the first to raise, the lines are those of the calls before k only:
  the sections after a failing call are not collected.
\<close>

theorem full_report_until_first_failure:
  "get_full_system_report now d s =
     join [NL] ([''# Complete System Report'', generated_line now] @
                lines_before_error (full_report_calls d s) @
                (case first_error (full_report_calls d s) of
                   None \<Rightarrow> []
                 | Some e \<Rightarrow> [NL # warning_sign @ '' **Error collecting system info**: '' @ exc_str e]) @
                report_footer) \<and>
   full_report_calls d s =
     [get_system_identity (the_host s),
      get_hardware_info (the_host s) (hardware s),
      d,
      get_network_info (network s),
      get_storage_info (storage s),
      get_connectivity_devices (usb_info s) (bt_info s),
      get_running_processes (process_iter s),
      get_network_ports (sockets s),
      get_user_session_info (the_host s) (user s),
      get_time_locale_info (clock s)] \<and>
   ((\<forall>c \<in> set (full_report_calls d s). returned c) \<longrightarrow>
      first_error (full_report_calls d s) = None \<and>
      lines_before_error (full_report_calls d s) = concat (map projr (full_report_calls d s))) \<and>
   (\<forall>k. k < length (full_report_calls d s) \<and> \<not> returned (full_report_calls d s ! k) \<and>
        (\<forall>j < k. returned (full_report_calls d s ! j)) \<longrightarrow>
      first_error (full_report_calls d s) = Some (projl (full_report_calls d s ! k)) \<and>
      lines_before_error (full_report_calls d s) =
        concat (map projr (take k (full_report_calls d s))))"
proof -
  have a: "get_full_system_report now d s =
     join [NL] ([''# Complete System Report'', generated_line now] @
                lines_before_error (full_report_calls d s) @
                (case first_error (full_report_calls d s) of
                   None \<Rightarrow> []
                 | Some e \<Rightarrow> [NL # warning_sign @ '' **Error collecting system info**: '' @ exc_str e]) @
                report_footer)"
    by (simp only: get_full_system_report_def full_report_sections_eq)
  show ?thesis
    using a full_report_calls_list [of d s] all_returned [of "full_report_calls d s"]
      first_failure [of _ "full_report_calls d s"]
    by blast
qed

lemma linux_identity_lines: "get_system_identity linux_host = Inr linux_identity"
  by (simp add: get_system_identity_def linux_host_def linux_identity_def)

lemma broken_hardware_raises:
  "get_hardware_info linux_host broken_hardware =
     Inl (FileNotFoundError, ''[Errno 2] No such file or directory'')"
  by (simp add: get_hardware_info_def bind_result_def broken_hardware_def healthy_hardware_def)

lemma healthy_calls_returned:
  "\<forall>c \<in> set (full_report_calls (Inr [hdr_display]) healthy_system). returned c"
proof -
  have st: "returned (get_storage_info one_disk)"
    using one_disk_usable by (intro storage_returned [of one_disk "[root_partition]"]) simp_all
  have d: "returned (Inr [hdr_display] :: py_error + string list)" by (simp add: returned_def)
  show ?thesis
    unfolding full_report_calls_list healthy_fields
    using st d healthy_probes
    by (simp add: always_returned hardware_returned network_returned user_returned identity_returned)
qed

lemma broken_calls_first_failure:
  "1 < length (full_report_calls not_callable broken_system) \<and>
   \<not> returned (full_report_calls not_callable broken_system ! 1) \<and>
   (\<forall>j < 1. returned (full_report_calls not_callable broken_system ! j))"
  unfolding full_report_calls_list healthy_fields
  by (simp add: broken_hardware_raises linux_identity_lines returned_def)

theorem full_report_until_first_failure_witness:
  "list_all returned (full_report_calls (Inr [hdr_display]) healthy_system) \<and>
   first_error (full_report_calls (Inr [hdr_display]) healthy_system) = None \<and>
   lines_before_error (full_report_calls (Inr [hdr_display]) healthy_system) =
     concat (map projr (full_report_calls (Inr [hdr_display]) healthy_system)) \<and>
   1 < length (full_report_calls not_callable broken_system) \<and>
   returned (full_report_calls not_callable broken_system ! 0) \<and>
   \<not> returned (full_report_calls not_callable broken_system ! 1) \<and>
   first_error (full_report_calls not_callable broken_system) =
     Some (FileNotFoundError, ''[Errno 2] No such file or directory'') \<and>
   lines_before_error (full_report_calls not_callable broken_system) = linux_identity"
proof -
  note h = full_report_until_first_failure [of "''2025-01-01 12:00:00''" "Inr [hdr_display]" healthy_system]
  note b = full_report_until_first_failure [of "''2025-01-01 12:00:00''" not_callable broken_system]
  from h healthy_calls_returned
  have c1: "first_error (full_report_calls (Inr [hdr_display]) healthy_system) = None \<and>
     lines_before_error (full_report_calls (Inr [hdr_display]) healthy_system) =
       concat (map projr (full_report_calls (Inr [hdr_display]) healthy_system))"
    by blast
  from b broken_calls_first_failure
  have c2: "first_error (full_report_calls not_callable broken_system) =
       Some (projl (full_report_calls not_callable broken_system ! 1)) \<and>
     lines_before_error (full_report_calls not_callable broken_system) =
       concat (map projr (take 1 (full_report_calls not_callable broken_system)))"
    by blast
  have v: "projl (full_report_calls not_callable broken_system ! 1) =
      (FileNotFoundError, ''[Errno 2] No such file or directory'')"
    unfolding full_report_calls_list healthy_fields by (simp add: broken_hardware_raises)
  have l: "concat (map projr (take 1 (full_report_calls not_callable broken_system))) = linux_identity"
    unfolding full_report_calls_list healthy_fields by (simp add: linux_identity_lines)
  have la: "list_all returned (full_report_calls (Inr [hdr_display]) healthy_system)"
    using healthy_calls_returned by (simp only: list_all_iff)
  have r0: "returned (full_report_calls not_callable broken_system ! 0)"
    using broken_calls_first_failure by simp
  from c1 c2 v l la r0 broken_calls_first_failure show ?thesis by simp
qed

lemma broken_report_sections:
  "full_report_sections ''2025-01-01 12:00:00'' (full_report_calls not_callable broken_system) =
     [''# Complete System Report'', generated_line ''2025-01-01 12:00:00''] @ linux_identity @
     [NL # warning_sign @ '' **Error collecting system info**: [Errno 2] No such file or directory''] @
     report_footer"
  unfolding full_report_calls_list healthy_fields full_report_sections_def
  by (simp add: linux_identity_lines broken_hardware_raises exc_str_def)

theorem full_report_drops_later_sections:
  "get_hardware_info (the_host broken_system) (hardware broken_system) =
     Inl (FileNotFoundError, ''[Errno 2] No such file or directory'') \<and>
   get_network_info (network broken_system) = Inr laptop_report \<and>
   hdr_network \<in> set laptop_report \<and>
   full_report_sections ''2025-01-01 12:00:00'' (full_report_calls not_callable broken_system) =
     [''# Complete System Report'', generated_line ''2025-01-01 12:00:00''] @ linux_identity @
     [NL # warning_sign @ '' **Error collecting system info**: [Errno 2] No such file or directory''] @
     report_footer \<and>
   hdr_network \<notin> set (full_report_sections ''2025-01-01 12:00:00''
                          (full_report_calls not_callable broken_system))"
proof -
  have n: "network broken_system = laptop_net"
    by (simp add: broken_system_def healthy_system_def)
  have m: "hdr_network \<in> set laptop_report" by (simp add: laptop_report_def)
  have a: "hdr_network \<notin> set ([''# Complete System Report'', generated_line ''2025-01-01 12:00:00''] @
      linux_identity @
      [NL # warning_sign @ '' **Error collecting system info**: [Errno 2] No such file or directory''] @
      report_footer)"
    by (simp add: hdr_network_def generated_line_def linux_identity_def hdr_identity_def
        warning_sign_def report_footer_def NL_def)
  show ?thesis
    using n m a laptop_net_report broken_hardware_raises broken_report_sections
    by (simp add: healthy_fields)
qed

text \<open>
  With the display step that FastMCP 2.7 and later give (the decorated name is a tool
  object, and calling it raises \<open>TypeError\<close>), the report of a machine on which every
  collector returns ends after the hardware section.
\<close>

lemma full_report_display_step_raises:
  "full_report_sections now (full_report_calls not_callable healthy_system) =
     [''# Complete System Report'', generated_line now] @ linux_identity @
     projr (get_hardware_info linux_host healthy_hardware) @
     [NL # warning_sign @ '' **Error collecting system info**: 'FunctionTool' object is not callable''] @
     report_footer"
proof -
  have r: "returned (get_hardware_info linux_host healthy_hardware)"
    using healthy_probes by (simp add: hardware_returned)
  then obtain ls where ls: "get_hardware_info linux_host healthy_hardware = Inr ls"
    by (cases "get_hardware_info linux_host healthy_hardware") (simp_all add: returned_def)
  show ?thesis
    unfolding full_report_calls_list healthy_fields full_report_sections_def
    by (simp add: linux_identity_lines ls not_callable_def exc_str_def)
qed


end
